theory Spec2Isabelle
  imports Main
begin

section \<open>JavaScript values\<close>

text \<open>
  The payloads, candidates and transform results of the library are arbitrary JavaScript
  values. They are modelled as trees: the primitives, arrays, objects (the list of own
  properties, keys distinct, in insertion order) and functions (opaque). Numbers keep
  the distinctions the code tests: \<open>NaN\<close>, the two infinities, and the finite numbers,
  of which the integers are represented (\<open>-0\<close> and \<open>0\<close> are one value; they are
  \<open>===\<close>-equal and print alike). Symbols, bigints, getters and cyclic object graphs
  are outside the model.
\<close>

datatype jsnum = Fin int | PosInf | NegInf | NaN

datatype jv =
    JUndef
  | JNull
  | JBool bool
  | JNum jsnum
  | JStr string
  | JArr "jv list"
  | JObj "(string \<times> jv) list"
  | JFun string

text \<open>The \<open>typeof\<close> operator.\<close>

fun typeof :: "jv \<Rightarrow> string" where
  "typeof JUndef = ''undefined''"
| "typeof JNull = ''object''"
| "typeof (JBool b) = ''boolean''"
| "typeof (JNum n) = ''number''"
| "typeof (JStr s) = ''string''"
| "typeof (JArr xs) = ''object''"
| "typeof (JObj kvs) = ''object''"
| "typeof (JFun f) = ''function''"

text \<open>Truthiness (\<open>ToBoolean\<close>): what \<open>!v\<close>, \<open>v && ...\<close> and \<open>v ? a : b\<close> test.\<close>

fun truthy :: "jv \<Rightarrow> bool" where
  "truthy JUndef = False"
| "truthy JNull = False"
| "truthy (JBool b) = b"
| "truthy (JNum n) = (case n of Fin i \<Rightarrow> i \<noteq> 0 | NaN \<Rightarrow> False | _ \<Rightarrow> True)"
| "truthy (JStr s) = (s \<noteq> [])"
| "truthy (JArr xs) = True"
| "truthy (JObj kvs) = True"
| "truthy (JFun f) = True"

fun Array_isArray :: "jv \<Rightarrow> bool" where
  "Array_isArray (JArr xs) = True"
| "Array_isArray v = False"

text \<open>\<open>isNaN\<close>, which the code only applies to values it knows to be numbers.\<close>

fun isNaN :: "jsnum \<Rightarrow> bool" where
  "isNaN NaN = True"
| "isNaN n = False"

text \<open>\<open>v === undefined || v === null\<close>.\<close>

fun nullish :: "jv \<Rightarrow> bool" where
  "nullish JUndef = True"
| "nullish JNull = True"
| "nullish v = False"

section \<open>The library's types (utils)\<close>

text \<open>\<open>ErrorObjectErrorResult\<close>: the closed set of failure sentinels (string literals).\<close>

datatype errorObjectErrorResult =
    isNullish
  | isNotAnObject
  | checkIsNullish
  | checkIsNotAnObject
  | isNotAnArray
  | checkInputObjectForValuesIsNotAnObject
  | checkInputObjectForValuesFailed
  | checkInputObjectForTypesIsNotAnObject
  | checkInputObjectForTypesFailed
  | checkInputObjectForTypesValueIsArrayFailed
  | checkInputObjectForKeysIsNotAnObject
  | checkInputObjectForKeysFailed
  | pathToErrorsIsNotAnArray
  | pathToErrorsValuesAreNotStrings
  | pathToCodeIsInvalid
  | pathToCodeIsNotAnArray
  | pathToCodeValuesAreNotStrings
  | pathToNumberCodeIsInvalid
  | pathToNumberCodeIsNotAnArray
  | pathToNumberCodeValuesAreNotStrings
  | pathToMessageIsInvalid
  | pathToMessageIsNotAnArray
  | pathToMessageValuesAreNotStrings
  | pathToDetailsIsInvalid
  | pathToDetailsIsNotAnArray
  | pathToDetailsValuesAreNotStrings
  | pathToDomainIsInvalid
  | pathToDomainIsNotAnArray
  | pathToDomainValuesAreNotStrings
  | transformIsNotAFunction
  | transformResultIsNotAValidObject
  | transformCodeResultIsNotString
  | transformNumberCodeResultIsNotNumber
  | transformNumberCodeResultIsNaN
  | transformMessageResultIsNotString
  | transformDetailsResultIsNotString
  | transformDomainResultIsNotString
  | buildSummaryIsNullish
  | buildSummaryIsNotAnObject
  | generalBuildSummariesFromObjectError
  | generalBuildSummaryFromObjectError
  | generalCheckInputObjectForValuesError
  | unknownCodeOrMessage
  | invalidSummary

text \<open>
  \<open>ErrorObjectTransformState\<close>: the values found before the transform, as the type
  declares them (\<open>string | undefined\<close>, for \<open>numberCode\<close> \<open>number | undefined\<close>).
\<close>

record errorObjectTransformState =
  ts_code :: "string option"
  ts_numberCode :: "jsnum option"
  ts_message :: "string option"
  ts_details :: "string option"
  ts_domain :: "string option"

text \<open>
  \<open>PathValueAndTransform<V>\<close>: the winning path, the value before the transform and
  the value after it. The value after the transform is whatever the transform returned
  for the field, so it is a JavaScript value.
\<close>

record 'v pathValueAndTransform =
  pvt_path :: "string option"
  pvt_beforeTransform :: "'v option"
  pvt_value :: jv

record errorSummaryValue =
  sv_code :: "string pathValueAndTransform option"
  sv_numberCode :: "jsnum pathValueAndTransform option"
  sv_message :: "string pathValueAndTransform option"
  sv_details :: "string pathValueAndTransform option"
  sv_domain :: "string pathValueAndTransform option"

record errorSummary =
  es_didDetectErrorsArray :: "bool option"
  es_input :: jv
  es_path :: "string option"
  es_value :: errorSummaryValue

record errorObjectProcessingError =
  pe_errorCode :: errorObjectErrorResult
  pe_summary :: "errorSummary option"

text \<open>
  Modelled from the spec: the \<open>ErrorObject\<close> class of the package
  \<open>@smbcheeky/error-object\<close>, which this repository imports and does not contain. The
  spec gives it as a record built from code, message and the optional numberCode, details,
  domain, raw and processingErrors, with the setters \<open>setNextErrors\<close>, \<open>setRaw\<close>
  and \<open>setProcessingErrors\<close>, each storing its argument and returning the record.
\<close>

datatype errorObject = ErrorObject
  (eo_code: string)
  (eo_message: string)
  (eo_numberCode: jv)
  (eo_details: jv)
  (eo_domain: jv)
  (eo_summary: "errorSummary option")
  (eo_processingErrors: "errorObjectProcessingError list option")
  (eo_nextErrors: "errorObject list option")
  (eo_raw: "jv option")

fun setNextErrors :: "errorObject \<Rightarrow> errorObject list option \<Rightarrow> errorObject" where
  "setNextErrors (ErrorObject c m n d dm s pe nx r) nx' = ErrorObject c m n d dm s pe nx' r"

fun setRaw :: "errorObject \<Rightarrow> jv \<Rightarrow> errorObject" where
  "setRaw (ErrorObject c m n d dm s pe nx r) raw = ErrorObject c m n d dm s pe nx (Some raw)"

fun setProcessingErrors :: "errorObject \<Rightarrow> errorObjectProcessingError list \<Rightarrow> errorObject" where
  "setProcessingErrors (ErrorObject c m n d dm s pe nx r) pe' =
     ErrorObject c m n d dm s (Some pe') nx r"

section \<open>The runtime the library calls\<close>

text \<open>
  The built-in functions the source calls are parameters of the model, so every theorem
  below holds whatever they compute:
  \<^item> \<open>JSON_parse s\<close> is \<open>JSON.parse(s)\<close>, \<open>None\<close> when it throws;
  \<^item> \<open>JSON_stringify v\<close> is \<open>JSON.stringify(v)\<close> for an array or object \<open>v\<close>, a
    string for every tree of the model;
  \<^item> \<open>Number_of s\<close> is \<open>Number(s)\<close>;
  \<^item> \<open>Number_toString n\<close> is the string of a number, as \<open>n.toString()\<close> and as the
    property key that \<open>acc[n]\<close> reads;
  \<^item> \<open>inherited v k\<close> is what \<open>v[k]\<close> reads through the prototype chain when the array or
    object \<open>v\<close> has no own property \<open>k\<close>;
  \<^item> \<open>ErrorObject_fallback\<close> is the record \<open>ErrorObject.fallback()\<close> of the imported
    package.
\<close>

record js_env =
  JSON_parse :: "string \<Rightarrow> jv option"
  JSON_stringify :: "jv \<Rightarrow> string"
  Number_of :: "string \<Rightarrow> jsnum"
  Number_toString :: "jsnum \<Rightarrow> string"
  inherited :: "jv \<Rightarrow> string \<Rightarrow> jv"
  ErrorObject_fallback :: errorObject

section \<open>Path Resolver (builder: findNestedValueForPath)\<close>

text \<open>\<open>s.split(sep)\<close> for a one-character separator: \<open>"a..b"\<close> gives \<open>["a", "", "b"]\<close>.\<close>

fun String_split :: "char \<Rightarrow> string \<Rightarrow> string list" where
  "String_split sep [] = [[]]"
| "String_split sep (c # cs) =
     (if c = sep then [] # String_split sep cs
      else (case String_split sep cs of
              w # ws \<Rightarrow> (c # w) # ws
            | [] \<Rightarrow> [[c]]))"

text \<open>
  An array index as a property key: the decimal digits of a natural number, with no
  leading zero.
\<close>

definition isDigit :: "char \<Rightarrow> bool" where
  "isDigit c = (c \<in> set ''0123456789'')"

definition digitValue :: "char \<Rightarrow> nat" where
  "digitValue c = length (takeWhile (\<lambda>d. d \<noteq> c) ''0123456789'')"

definition digitsToNat :: "string \<Rightarrow> nat" where
  "digitsToNat ds = foldl (\<lambda>n c. 10 * n + digitValue c) 0 ds"

definition indexOfKey :: "string \<Rightarrow> nat option" where
  "indexOfKey k =
     (if k = [] then None
      else if \<not> list_all isDigit k then None
      else if 1 < length k \<and> hd k = CHR ''0'' then None
      else Some (digitsToNat k))"

text \<open>
  \<open>acc[k]\<close> for a property key \<open>k\<close>: an own property of an object, an element or
  the \<open>length\<close> of an array, and what the prototype chain gives otherwise. The resolver
  reads properties of arrays and non-null objects only.
\<close>

fun getProp :: "js_env \<Rightarrow> jv \<Rightarrow> string \<Rightarrow> jv" where
  "getProp B (JObj kvs) k =
     (case map_of kvs k of Some v \<Rightarrow> v | None \<Rightarrow> inherited B (JObj kvs) k)"
| "getProp B (JArr xs) k =
     (if k = ''length'' then JNum (Fin (int (length xs)))
      else (case indexOfKey k of
              Some i \<Rightarrow> (if i < length xs then xs ! i else inherited B (JArr xs) k)
            | None \<Rightarrow> inherited B (JArr xs) k))"
| "getProp B v k = JUndef"

text \<open>
  The reducer of \<open>findNestedValueForPath\<close>: an empty segment keeps the accumulator; a
  segment that \<open>Number\<close> reads as a number is used as that number (so as its string),
  any other as it stands.
\<close>

definition resolveSegment :: "js_env \<Rightarrow> jv \<Rightarrow> string \<Rightarrow> jv" where
  "resolveSegment B acc key =
     (if length key = 0 then acc
      else
        let numericKey = Number_of B key;
            resolvedKey = (if isNaN numericKey then key else Number_toString B numericKey)
        in if truthy acc \<and> typeof acc = ''object'' then getProp B acc resolvedKey else JUndef)"

text \<open>
  \<open>path.replace('[', '').replace(']', '')\<close> deletes the first \<open>[\<close> and then the first
  \<open>]\<close>: \<open>replace\<close> with a string pattern replaces one occurrence.
\<close>

definition findNestedValueForPath :: "js_env \<Rightarrow> jv \<Rightarrow> string \<Rightarrow> jv" where
  "findNestedValueForPath B v path =
     (if path = [] \<or> \<not> truthy v then JUndef
      else
        let normalizedPath = remove1 CHR '']'' (remove1 CHR ''['' path)
        in if normalizedPath = [] then JUndef
           else foldl (resolveSegment B) v (String_split CHR ''.'' normalizedPath))"

section \<open>Options (utils: ErrorObjectBuildOptions)\<close>

text \<open>
  A \<open>pathTo...\<close> option as the code tests it: the key is not in the options, its value
  is not an array, or it is an array, whose items the code checks to be strings one by one.
\<close>

datatype pathsOption = PathsMissing | PathsNotArray | Paths "jv list"

text \<open>
  A \<open>checkInputObjectFor...\<close> option: not in the options, a value whose \<open>typeof\<close> is
  not \<open>'object'\<close>, \<open>null\<close> (an object for \<open>typeof\<close>, on which \<open>Object.entries\<close>
  throws), or the entries of an object of rules.
\<close>

datatype 'r ruleSet = RulesMissing | RulesNotObject | RulesNull | Rules "(string \<times> 'r) list"

text \<open>The value of a value rule: \<open>string | number | boolean | null\<close>.\<close>

datatype primitive = PString string | PNumber jsnum | PBoolean bool | PNull

record valueRule =
  vr_value :: primitive
  vr_exists :: bool

record typeRule =
  tr_type :: string
  tr_valueIsArray :: bool
  tr_exists :: bool

record keyRule =
  kr_exists :: bool

text \<open>A call either returns a value or throws.\<close>

datatype 'a outcome = Returns 'a | Throws

text \<open>
  The \<open>transform\<close> option: not in the options, a value that is not a function, or a
  function of the values found and the candidate, which may return anything or throw.
\<close>

datatype transformOption =
    TransformMissing
  | TransformNotFunction
  | Transform "errorObjectTransformState \<Rightarrow> jv \<Rightarrow> jv outcome"

text \<open>\<open>'transform' in options && typeof options.transform !== 'function'\<close>.\<close>

fun presentNotFunction :: "transformOption \<Rightarrow> bool" where
  "presentNotFunction TransformNotFunction = True"
| "presentNotFunction t = False"

record errorObjectBuildOptions =
  checkInputObjectForValues :: "valueRule ruleSet"
  checkInputObjectForTypes :: "typeRule ruleSet"
  checkInputObjectForKeys :: "keyRule ruleSet"
  pathToErrors :: pathsOption
  pathToCode :: pathsOption
  pathToNumberCode :: pathsOption
  pathToMessage :: pathsOption
  pathToDetails :: pathsOption
  pathToDomain :: pathsOption
  transform :: transformOption

text \<open>\<open>addPrefixPathVariants\<close>: the paths, then the paths under each prefix.\<close>

datatype prefixArg = PrefixString string | PrefixArray "string list"

fun prefixed :: "string \<Rightarrow> jv \<Rightarrow> jv" where
  "prefixed p (JStr s) = JStr (p @ ''.'' @ s)"
| "prefixed p v = v"

fun addPrefixPathVariants :: "prefixArg \<Rightarrow> jv list \<Rightarrow> jv list" where
  "addPrefixPathVariants (PrefixString prefix) array = array @ map (prefixed prefix) array"
| "addPrefixPathVariants (PrefixArray prefix) array =
     (if 0 < length prefix then array @ concat (map (\<lambda>p. map (prefixed p) array) prefix)
      else array)"

text \<open>The state the transform receives, as the object \<open>{code, numberCode, message, details, domain}\<close>.\<close>

definition optString :: "string option \<Rightarrow> jv" where
  "optString x = (case x of None \<Rightarrow> JUndef | Some s \<Rightarrow> JStr s)"

definition optNumber :: "jsnum option \<Rightarrow> jv" where
  "optNumber x = (case x of None \<Rightarrow> JUndef | Some n \<Rightarrow> JNum n)"

definition stateObject :: "errorObjectTransformState \<Rightarrow> jv" where
  "stateObject st =
     JObj [(''code'', optString (ts_code st)),
           (''numberCode'', optNumber (ts_numberCode st)),
           (''message'', optString (ts_message st)),
           (''details'', optString (ts_details st)),
           (''domain'', optString (ts_domain st))]"

text \<open>
  The default transform: when no string code was found and a number code was, the code is
  the number's string; the result is \<open>{...beforeTransform, code: newCode}\<close>.
\<close>

definition defaultTransform :: "js_env \<Rightarrow> errorObjectTransformState \<Rightarrow> jv \<Rightarrow> jv outcome" where
  "defaultTransform B beforeTransform inputObject =
     (let newCode =
        (case ts_code beforeTransform of
           None \<Rightarrow> (case ts_numberCode beforeTransform of
                      Some n \<Rightarrow> Some (Number_toString B n)
                    | None \<Rightarrow> None)
         | Some c \<Rightarrow> Some c)
      in Returns (stateObject (beforeTransform\<lparr>ts_code := newCode\<rparr>)))"

definition DEFAULT_BUILD_OPTIONS :: "js_env \<Rightarrow> errorObjectBuildOptions" where
  "DEFAULT_BUILD_OPTIONS B =
     \<lparr> checkInputObjectForValues = RulesMissing,
       checkInputObjectForTypes = RulesMissing,
       checkInputObjectForKeys = RulesMissing,
       pathToErrors = Paths [JStr ''errors'', JStr ''errs''],
       pathToCode = Paths (addPrefixPathVariants (PrefixString ''error'')
          [JStr ''code'', JStr ''err_code'', JStr ''errorCode'', JStr ''error_code'']),
       pathToNumberCode = Paths (addPrefixPathVariants (PrefixString ''error'')
          [JStr ''numberCode'', JStr ''err_number_code'', JStr ''errorNumberCode'',
           JStr ''error_number_code'']),
       pathToMessage = Paths (addPrefixPathVariants (PrefixString ''error'')
          [JStr ''message'', JStr ''err_message'', JStr ''errorMessage'', JStr ''error_message'']),
       pathToDetails = Paths (addPrefixPathVariants (PrefixString ''error'')
          [JStr ''details'', JStr ''err_details'', JStr ''errorDetails'', JStr ''error_details'']),
       pathToDomain = Paths (addPrefixPathVariants (PrefixString ''error'')
          [JStr ''domain'', JStr ''errorDomain'', JStr ''error_domain'', JStr ''err_domain'',
           JStr ''type'']),
       transform = Transform (defaultTransform B) \<rparr>"

section \<open>Field Extractor (builder/valuesFromPaths)\<close>

text \<open>
  The loop over the paths of a string field (the source writes it out for code, message,
  details and domain): a path that is not a string ends the extraction with the field's
  failure; the first path whose value is a string, or an array or object, wins and ends
  the loop; every other value, \<open>undefined\<close> and \<open>null\<close> included, is passed over.
  \<open>stringValueAt\<close> is the body of the loop for one path: the value it keeps, if any.
  The result of the loop is the value before the transform and the winning path.
\<close>

definition stringValueAt :: "js_env \<Rightarrow> jv \<Rightarrow> string \<Rightarrow> string option" where
  "stringValueAt B objectToParse path =
     (let found = findNestedValueForPath B objectToParse path
      in if found \<noteq> JUndef \<and> found \<noteq> JNull then
           (case found of
              JStr s \<Rightarrow> Some s
            | _ \<Rightarrow>
              if Array_isArray found \<or> typeof found = ''object''
              then Some (JSON_stringify B found)
              else None)
         else None)"

fun stringValueFromPaths ::
  "js_env \<Rightarrow> jv \<Rightarrow> errorObjectErrorResult \<Rightarrow> jv list
   \<Rightarrow> errorObjectErrorResult + (string option \<times> string option)" where
  "stringValueFromPaths B objectToParse notStrings [] = Inr (None, None)"
| "stringValueFromPaths B objectToParse notStrings (JStr path # rest) =
     (case stringValueAt B objectToParse path of
        Some s \<Rightarrow> Inr (Some s, Some path)
      | None \<Rightarrow> stringValueFromPaths B objectToParse notStrings rest)"
| "stringValueFromPaths B objectToParse notStrings (p # rest) = Inl notStrings"

text \<open>The loop for \<open>numberCode\<close>: the first path whose value is a number other than \<open>NaN\<close>.\<close>

definition numberValueAt :: "js_env \<Rightarrow> jv \<Rightarrow> string \<Rightarrow> jsnum option" where
  "numberValueAt B objectToParse path =
     (case findNestedValueForPath B objectToParse path of
        JNum n \<Rightarrow> if \<not> isNaN n then Some n else None
      | _ \<Rightarrow> None)"

fun numberValueFromPaths ::
  "js_env \<Rightarrow> jv \<Rightarrow> jv list \<Rightarrow> errorObjectErrorResult + (jsnum option \<times> string option)" where
  "numberValueFromPaths B objectToParse [] = Inr (None, None)"
| "numberValueFromPaths B objectToParse (JStr path # rest) =
     (case numberValueAt B objectToParse path of
        Some n \<Rightarrow> Inr (Some n, Some path)
      | None \<Rightarrow> numberValueFromPaths B objectToParse rest)"
| "numberValueFromPaths B objectToParse (p # rest) = Inl pathToNumberCodeValuesAreNotStrings"

definition stringField ::
  "js_env \<Rightarrow> jv \<Rightarrow> pathsOption \<Rightarrow> errorObjectErrorResult \<Rightarrow> errorObjectErrorResult
   \<Rightarrow> errorObjectErrorResult \<Rightarrow> errorObjectErrorResult + (string option \<times> string option)" where
  "stringField B objectToParse opt invalid notArray notStrings =
     (case opt of
        PathsMissing \<Rightarrow> Inl invalid
      | PathsNotArray \<Rightarrow> Inl notArray
      | Paths ps \<Rightarrow> stringValueFromPaths B objectToParse notStrings ps)"

definition numberField ::
  "js_env \<Rightarrow> jv \<Rightarrow> pathsOption \<Rightarrow> errorObjectErrorResult + (jsnum option \<times> string option)" where
  "numberField B objectToParse opt =
     (case opt of
        PathsMissing \<Rightarrow> Inl pathToNumberCodeIsInvalid
      | PathsNotArray \<Rightarrow> Inl pathToNumberCodeIsNotAnArray
      | Paths ps \<Rightarrow> numberValueFromPaths B objectToParse ps)"

record valuesFromPaths =
  codeBeforeTransform :: "string option"
  codePath :: "string option"
  numberCodeBeforeTransform :: "jsnum option"
  numberCodePath :: "string option"
  messageBeforeTransform :: "string option"
  messagePath :: "string option"
  detailsBeforeTransform :: "string option"
  detailsPath :: "string option"
  domainBeforeTransform :: "string option"
  domainPath :: "string option"

text \<open>The five fields in the source's order; the first failure is the result.\<close>

definition processAllValuesFromPaths ::
  "js_env \<Rightarrow> jv \<Rightarrow> errorObjectBuildOptions \<Rightarrow> errorObjectErrorResult + valuesFromPaths" where
  "processAllValuesFromPaths B objectToParse options =
     (case stringField B objectToParse (pathToCode options)
             pathToCodeIsInvalid pathToCodeIsNotAnArray pathToCodeValuesAreNotStrings of
        Inl e \<Rightarrow> Inl e
      | Inr (code, cPath) \<Rightarrow>
     (case numberField B objectToParse (pathToNumberCode options) of
        Inl e \<Rightarrow> Inl e
      | Inr (numberCode, nPath) \<Rightarrow>
     (case stringField B objectToParse (pathToMessage options)
             pathToMessageIsInvalid pathToMessageIsNotAnArray pathToMessageValuesAreNotStrings of
        Inl e \<Rightarrow> Inl e
      | Inr (message, mPath) \<Rightarrow>
     (case stringField B objectToParse (pathToDetails options)
             pathToDetailsIsInvalid pathToDetailsIsNotAnArray pathToDetailsValuesAreNotStrings of
        Inl e \<Rightarrow> Inl e
      | Inr (details, dPath) \<Rightarrow>
     (case stringField B objectToParse (pathToDomain options)
             pathToDomainIsInvalid pathToDomainIsNotAnArray pathToDomainValuesAreNotStrings of
        Inl e \<Rightarrow> Inl e
      | Inr (domain, dmPath) \<Rightarrow>
          Inr \<lparr> codeBeforeTransform = code, codePath = cPath,
                numberCodeBeforeTransform = numberCode, numberCodePath = nPath,
                messageBeforeTransform = message, messagePath = mPath,
                detailsBeforeTransform = details, detailsPath = dPath,
                domainBeforeTransform = domain, domainPath = dmPath \<rparr>)))))"

section \<open>Field Extractor (builder: buildSummaryFromObject)\<close>

text \<open>
  The candidate that is parsed. A string candidate is given to \<open>JSON.parse\<close>, and a
  non-null object result is taken; a failure of \<open>JSON.parse\<close> is caught and ignored.
  The test \<open>objectToParse === maybeObject\<close> compares \<open>undefined\<close> or the parsed
  object with the string candidate.
\<close>

definition parsedObject :: "js_env \<Rightarrow> string \<Rightarrow> jv" where
  "parsedObject B s =
     (case JSON_parse B s of
        Some json \<Rightarrow> if json \<noteq> JUndef \<and> json \<noteq> JNull \<and> typeof json = ''object'' then json else JUndef
      | None \<Rightarrow> JUndef)"

definition objectToParseOf :: "js_env \<Rightarrow> jv \<Rightarrow> jv" where
  "objectToParseOf B maybeObject =
     (let objectToParse =
        (case maybeObject of
           JStr s \<Rightarrow>
             (let parsed = parsedObject B s
              in if parsed = maybeObject
                 then JObj [(''code'', JStr ''unknown''), (''message'', maybeObject)]
                 else parsed)
         | _ \<Rightarrow> JUndef)
      in if objectToParse = JUndef \<or> objectToParse = JNull then maybeObject else objectToParse)"

text \<open>
  The checks on what the transform returned, in the source's order: a string field fails
  when its value is truthy and not a string; \<open>numberCode\<close> fails when its value is not
  \<open>undefined\<close> or \<open>null\<close> and is not a number, or is \<open>NaN\<close>.
\<close>

definition valueIsNaN :: "jv \<Rightarrow> bool" where
  "valueIsNaN v = (case v of JNum n \<Rightarrow> isNaN n | _ \<Rightarrow> False)"

definition checkTransformResult :: "js_env \<Rightarrow> jv \<Rightarrow> errorObjectErrorResult option" where
  "checkTransformResult B values =
     (if values = JUndef \<or> values = JNull \<or> typeof values \<noteq> ''object''
        then Some transformResultIsNotAValidObject
      else if truthy (getProp B values ''code'') \<and> typeof (getProp B values ''code'') \<noteq> ''string''
        then Some transformCodeResultIsNotString
      else if getProp B values ''numberCode'' \<noteq> JUndef \<and> getProp B values ''numberCode'' \<noteq> JNull
              \<and> typeof (getProp B values ''numberCode'') \<noteq> ''number''
        then Some transformNumberCodeResultIsNotNumber
      else if getProp B values ''numberCode'' \<noteq> JUndef \<and> getProp B values ''numberCode'' \<noteq> JNull
              \<and> valueIsNaN (getProp B values ''numberCode'')
        then Some transformNumberCodeResultIsNaN
      else if truthy (getProp B values ''message'') \<and> typeof (getProp B values ''message'') \<noteq> ''string''
        then Some transformMessageResultIsNotString
      else if truthy (getProp B values ''details'') \<and> typeof (getProp B values ''details'') \<noteq> ''string''
        then Some transformDetailsResultIsNotString
      else if truthy (getProp B values ''domain'') \<and> typeof (getProp B values ''domain'') \<noteq> ''string''
        then Some transformDomainResultIsNotString
      else None)"

text \<open>Truthiness of \<open>string | undefined\<close>.\<close>

definition truthyString :: "string option \<Rightarrow> bool" where
  "truthyString x = (case x of None \<Rightarrow> False | Some s \<Rightarrow> s \<noteq> [])"

text \<open>
  One entry of the summary: present when the path, the value before the transform or
  the value after it is truthy (for \<open>numberCode\<close>: when the path is truthy or a value
  is not \<open>undefined\<close> or \<open>null\<close>).
\<close>

definition stringEntry ::
  "string option \<Rightarrow> string option \<Rightarrow> jv \<Rightarrow> string pathValueAndTransform option" where
  "stringEntry path beforeTransform v =
     (if truthyString path \<or> truthyString beforeTransform \<or> truthy v
      then Some \<lparr> pvt_path = path, pvt_beforeTransform = beforeTransform, pvt_value = v \<rparr>
      else None)"

definition numberEntry ::
  "string option \<Rightarrow> jsnum option \<Rightarrow> jv \<Rightarrow> jsnum pathValueAndTransform option" where
  "numberEntry path beforeTransform v =
     (if truthyString path \<or> beforeTransform \<noteq> None \<or> (v \<noteq> JUndef \<and> v \<noteq> JNull)
      then Some \<lparr> pvt_path = path, pvt_beforeTransform = beforeTransform, pvt_value = v \<rparr>
      else None)"

definition buildSummaryFromObject ::
  "js_env \<Rightarrow> jv \<Rightarrow> string option \<Rightarrow> bool \<Rightarrow> errorObjectBuildOptions
   \<Rightarrow> errorObjectErrorResult + errorSummary" where
  "buildSummaryFromObject B maybeObject errorsPath didDetectErrorsArray options =
     (if maybeObject = JUndef \<or> maybeObject = JNull then Inl buildSummaryIsNullish
      else
        let objectToParse = objectToParseOf B maybeObject
        in if typeof objectToParse \<noteq> ''object'' then Inl buildSummaryIsNotAnObject
        else
          (case processAllValuesFromPaths B objectToParse options of
             Inl valuesResult \<Rightarrow> Inl valuesResult
           | Inr r \<Rightarrow>
             if presentNotFunction (transform options) then Inl transformIsNotAFunction
             else
               let beforeTransform =
                     \<lparr> ts_code = codeBeforeTransform r,
                       ts_numberCode = numberCodeBeforeTransform r,
                       ts_message = messageBeforeTransform r,
                       ts_details = detailsBeforeTransform r,
                       ts_domain = domainBeforeTransform r \<rparr>
               in (case (case transform options of
                           Transform f \<Rightarrow> f beforeTransform objectToParse
                         | _ \<Rightarrow> Returns (stateObject beforeTransform)) of
                     Throws \<Rightarrow> Inl generalBuildSummaryFromObjectError
                   | Returns values \<Rightarrow>
                     (case checkTransformResult B values of
                        Some e \<Rightarrow> Inl e
                      | None \<Rightarrow>
                        Inr \<lparr> es_didDetectErrorsArray = (if didDetectErrorsArray then Some True else None),
                              es_input = objectToParse,
                              es_path = errorsPath,
                              es_value =
                                \<lparr> sv_code = stringEntry (codePath r) (codeBeforeTransform r)
                                              (getProp B values ''code''),
                                  sv_numberCode = numberEntry (numberCodePath r) (numberCodeBeforeTransform r)
                                              (getProp B values ''numberCode''),
                                  sv_message = stringEntry (messagePath r) (messageBeforeTransform r)
                                              (getProp B values ''message''),
                                  sv_details = stringEntry (detailsPath r) (detailsBeforeTransform r)
                                              (getProp B values ''details''),
                                  sv_domain = stringEntry (domainPath r) (domainBeforeTransform r)
                                              (getProp B values ''domain'') \<rparr> \<rparr>))))"

section \<open>Error-Collection Detector (builder: buildSummariesFromObject)\<close>

text \<open>
  The loop over \<open>pathToErrors\<close>: a path that is not a string ends the call with a
  failure; the first path whose value is an array (arrays are truthy, the empty one too)
  sets \<open>errors\<close>, \<open>errorsPath\<close> and \<open>didDetectErrorsArray\<close> and breaks.
\<close>

fun findErrorsArray ::
  "js_env \<Rightarrow> jv \<Rightarrow> jv list \<Rightarrow> errorObjectErrorResult + (jv list \<times> string option \<times> bool)" where
  "findErrorsArray B input [] = Inr ([], None, False)"
| "findErrorsArray B input (JStr path # rest) =
     (case findNestedValueForPath B input path of
        JArr found \<Rightarrow> Inr (found, Some path, True)
      | _ \<Rightarrow> findErrorsArray B input rest)"
| "findErrorsArray B input (p # rest) = Inl pathToErrorsValuesAreNotStrings"

definition buildSummariesFromObject ::
  "js_env \<Rightarrow> jv \<Rightarrow> errorObjectBuildOptions \<Rightarrow> (errorObjectErrorResult + errorSummary) list" where
  "buildSummariesFromObject B input options =
     (if input = JUndef \<or> input = JNull then [Inl isNullish]
      else if typeof input \<noteq> ''object'' then [Inl isNotAnObject]
      else
        (case (case pathToErrors options of
                 PathsMissing \<Rightarrow> Inr ([], None, False)
               | PathsNotArray \<Rightarrow> Inl pathToErrorsIsNotAnArray
               | Paths ps \<Rightarrow> findErrorsArray B input ps) of
           Inl e \<Rightarrow> [Inl e]
         | Inr (found, errorsPath, didDetectErrorsArray) \<Rightarrow>
             let errors = (if length found = 0 then [input] else found)
             in map (\<lambda>errorMaybeObject.
                       buildSummaryFromObject B errorMaybeObject errorsPath didDetectErrorsArray options)
                  errors))"

section \<open>Input Validator (index: checkInputForInitialObject)\<close>

text \<open>\<open>found === value\<close> for a primitive \<open>value\<close>; \<open>NaN\<close> equals nothing.\<close>

fun strictEquals :: "jv \<Rightarrow> primitive \<Rightarrow> bool" where
  "strictEquals (JStr s) (PString t) = (s = t)"
| "strictEquals (JNum n) (PNumber m) = (n = m \<and> \<not> isNaN n)"
| "strictEquals (JBool a) (PBoolean b) = (a = b)"
| "strictEquals JNull PNull = True"
| "strictEquals v p = False"

fun checkValues :: "js_env \<Rightarrow> jv \<Rightarrow> (string \<times> valueRule) list \<Rightarrow> errorObjectErrorResult option" where
  "checkValues B input [] = None"
| "checkValues B input ((key, rule) # rest) =
     (let foundValue = findNestedValueForPath B input key
      in if (if vr_exists rule then \<not> strictEquals foundValue (vr_value rule)
             else strictEquals foundValue (vr_value rule))
         then Some checkInputObjectForValuesFailed
         else checkValues B input rest)"

fun checkTypes :: "js_env \<Rightarrow> jv \<Rightarrow> (string \<times> typeRule) list \<Rightarrow> errorObjectErrorResult option" where
  "checkTypes B input [] = None"
| "checkTypes B input ((key, rule) # rest) =
     (let foundValue = findNestedValueForPath B input key
      in if tr_valueIsArray rule \<and>
            (if tr_exists rule then \<not> Array_isArray foundValue else Array_isArray foundValue)
         then Some checkInputObjectForTypesValueIsArrayFailed
         else if (if tr_exists rule then typeof foundValue \<noteq> tr_type rule
                  else typeof foundValue = tr_type rule)
         then Some checkInputObjectForTypesFailed
         else checkTypes B input rest)"

fun checkKeys :: "js_env \<Rightarrow> jv \<Rightarrow> (string \<times> keyRule) list \<Rightarrow> errorObjectErrorResult option" where
  "checkKeys B input [] = None"
| "checkKeys B input ((key, rule) # rest) =
     (let foundValue = findNestedValueForPath B input key
      in if (if kr_exists rule then \<not> truthy foundValue else truthy foundValue)
         then Some checkInputObjectForKeysFailed
         else checkKeys B input rest)"

text \<open>
  One rule set: skipped when the key is not in the options; a failure when its value is
  not an object; otherwise its entries are checked, and \<open>Object.entries(null)\<close> throws.
\<close>

definition checkRuleSet ::
  "'r ruleSet \<Rightarrow> errorObjectErrorResult \<Rightarrow> ((string \<times> 'r) list \<Rightarrow> errorObjectErrorResult option)
   \<Rightarrow> errorObjectErrorResult option outcome" where
  "checkRuleSet rs notAnObject check =
     (case rs of
        RulesMissing \<Rightarrow> Returns None
      | RulesNotObject \<Rightarrow> Returns (Some notAnObject)
      | RulesNull \<Rightarrow> Throws
      | Rules entries \<Rightarrow> Returns (check entries))"

text \<open>The body of the \<open>try\<close> block.\<close>

definition checkInputForInitialObject_try ::
  "js_env \<Rightarrow> jv \<Rightarrow> errorObjectBuildOptions \<Rightarrow> errorObjectErrorResult option outcome" where
  "checkInputForInitialObject_try B input options =
     (if input = JUndef \<or> input = JNull then Returns (Some checkIsNullish)
      else if typeof input \<noteq> ''object'' then Returns (Some checkIsNotAnObject)
      else
        (case checkRuleSet (checkInputObjectForValues options)
                checkInputObjectForValuesIsNotAnObject (checkValues B input) of
           Throws \<Rightarrow> Throws
         | Returns (Some e) \<Rightarrow> Returns (Some e)
         | Returns None \<Rightarrow>
        (case checkRuleSet (checkInputObjectForTypes options)
                checkInputObjectForTypesIsNotAnObject (checkTypes B input) of
           Throws \<Rightarrow> Throws
         | Returns (Some e) \<Rightarrow> Returns (Some e)
         | Returns None \<Rightarrow>
            checkRuleSet (checkInputObjectForKeys options)
                checkInputObjectForKeysIsNotAnObject (checkKeys B input))))"

text \<open>The \<open>catch\<close> logs and falls through to \<open>return undefined\<close>.\<close>

definition checkInputForInitialObject ::
  "js_env \<Rightarrow> jv \<Rightarrow> errorObjectBuildOptions \<Rightarrow> errorObjectErrorResult option" where
  "checkInputForInitialObject B input options =
     (case checkInputForInitialObject_try B input options of
        Returns r \<Rightarrow> r
      | Throws \<Rightarrow> None)"

section \<open>Result Aggregator (index: processErrorObjectResult)\<close>

text \<open>\<open>summary.value.code?.value\<close> and its siblings.\<close>

definition entryValue :: "'v pathValueAndTransform option \<Rightarrow> jv" where
  "entryValue e = (case e of None \<Rightarrow> JUndef | Some x \<Rightarrow> pvt_value x)"

text \<open>
  The test both callbacks make:
  \<open>v !== undefined && v !== null && typeof v === 'string'\<close>.
\<close>

definition isStringValue :: "jv \<Rightarrow> bool" where
  "isStringValue v = (v \<noteq> JUndef \<and> v \<noteq> JNull \<and> typeof v = ''string'')"

text \<open>
  The callback of \<open>filter\<close>: whether the entry is kept, and the processing errors it
  pushes. An entry is a failure sentinel (a string) or a summary; the branch for an entry
  that is neither (\<open>invalidSummary\<close>) has no input of the declared type.
\<close>

fun filterSummary ::
  "errorObjectErrorResult + errorSummary \<Rightarrow> bool \<times> errorObjectProcessingError list" where
  "filterSummary (Inl e) = (False, [\<lparr> pe_errorCode = e, pe_summary = None \<rparr>])"
| "filterSummary (Inr summary) =
     (let code = entryValue (sv_code (es_value summary));
          message = entryValue (sv_message (es_value summary))
      in if isStringValue code \<and> isStringValue message then (True, [])
         else (False, [\<lparr> pe_errorCode = unknownCodeOrMessage, pe_summary = Some summary \<rparr>]))"

text \<open>The string of a value known to be a string.\<close>

fun stringOf :: "jv \<Rightarrow> string" where
  "stringOf (JStr s) = s"
| "stringOf v = []"

text \<open>
  The callback of \<open>map\<close>: the record of a summary, or \<open>null\<close>. All records share the
  one \<open>processingErrors\<close> array, complete when \<open>map\<close> starts.
\<close>

fun buildErrorObject ::
  "errorObjectProcessingError list \<Rightarrow> errorObjectErrorResult + errorSummary \<Rightarrow> errorObject option" where
  "buildErrorObject processingErrors (Inl e) = None"
| "buildErrorObject processingErrors (Inr summary) =
     (let code = entryValue (sv_code (es_value summary));
          numberCode = entryValue (sv_numberCode (es_value summary));
          message = entryValue (sv_message (es_value summary));
          details = entryValue (sv_details (es_value summary));
          domain = entryValue (sv_domain (es_value summary))
      in if isStringValue code \<and> isStringValue message
         then Some (ErrorObject (stringOf code) (stringOf message) numberCode details domain
                      (Some summary) (Some processingErrors) None None)
         else None)"

record fromResult =
  error :: "errorObject option"
  force :: errorObject

definition processingErrorsOf ::
  "(errorObjectErrorResult + errorSummary) list \<Rightarrow> errorObjectProcessingError list" where
  "processingErrorsOf summaries = concat (map (\<lambda>summary. snd (filterSummary summary)) summaries)"

definition validErrorsOf :: "(errorObjectErrorResult + errorSummary) list \<Rightarrow> errorObject list" where
  "validErrorsOf summaries =
     List.map_filter (buildErrorObject (processingErrorsOf summaries))
       (filter (\<lambda>summary. fst (filterSummary summary)) summaries)"

definition processErrorObjectResult ::
  "(errorObjectErrorResult + errorSummary) list \<Rightarrow> jv \<Rightarrow> errorObject \<Rightarrow> fromResult" where
  "processErrorObjectResult summaries raw fallbackError =
     (let processingErrors = processingErrorsOf summaries
      in case validErrorsOf summaries of
           firstError # nextErrors \<Rightarrow>
             (let error = setRaw (setNextErrors firstError
                                    (if 0 < length nextErrors then Some nextErrors else None)) raw
              in \<lparr> error = Some error, force = error \<rparr>)
         | [] \<Rightarrow>
             \<lparr> error = None,
               force = (if 0 < length processingErrors
                        then setProcessingErrors fallbackError processingErrors
                        else fallbackError) \<rparr>)"

section \<open>The entry point (index: from)\<close>

text \<open>\<open>{...DEFAULT_BUILD_OPTIONS, ...(withOptions ?? {})}\<close>: a key of \<open>withOptions\<close> wins.\<close>

definition mergeOptions ::
  "errorObjectBuildOptions \<Rightarrow> errorObjectBuildOptions \<Rightarrow> errorObjectBuildOptions" where
  "mergeOptions d w =
     \<lparr> checkInputObjectForValues =
         (if checkInputObjectForValues w = RulesMissing then checkInputObjectForValues d
          else checkInputObjectForValues w),
       checkInputObjectForTypes =
         (if checkInputObjectForTypes w = RulesMissing then checkInputObjectForTypes d
          else checkInputObjectForTypes w),
       checkInputObjectForKeys =
         (if checkInputObjectForKeys w = RulesMissing then checkInputObjectForKeys d
          else checkInputObjectForKeys w),
       pathToErrors = (if pathToErrors w = PathsMissing then pathToErrors d else pathToErrors w),
       pathToCode = (if pathToCode w = PathsMissing then pathToCode d else pathToCode w),
       pathToNumberCode =
         (if pathToNumberCode w = PathsMissing then pathToNumberCode d else pathToNumberCode w),
       pathToMessage = (if pathToMessage w = PathsMissing then pathToMessage d else pathToMessage w),
       pathToDetails = (if pathToDetails w = PathsMissing then pathToDetails d else pathToDetails w),
       pathToDomain = (if pathToDomain w = PathsMissing then pathToDomain d else pathToDomain w),
       transform = (case transform w of TransformMissing \<Rightarrow> transform d | t \<Rightarrow> t) \<rparr>"

text \<open>
  The summaries \<open>from\<close> hands to the aggregator: those of the collection when the
  options have a \<open>pathToErrors\<close> key, the one of the payload otherwise.
\<close>

definition summariesOf ::
  "js_env \<Rightarrow> jv \<Rightarrow> errorObjectBuildOptions \<Rightarrow> (errorObjectErrorResult + errorSummary) list" where
  "summariesOf B v options =
     (if pathToErrors options \<noteq> PathsMissing then buildSummariesFromObject B v options
      else [buildSummaryFromObject B v None False options])"

text \<open>The exported \<open>from\<close> (\<open>fromPayload\<close> in the package's documentation).\<close>

definition fromPayload :: "js_env \<Rightarrow> jv \<Rightarrow> errorObjectBuildOptions \<Rightarrow> fromResult" where
  "fromPayload B v withOptions =
     (let options = mergeOptions (DEFAULT_BUILD_OPTIONS B) withOptions;
          fallbackError = setRaw (ErrorObject_fallback B) v
      in case checkInputForInitialObject B v options of
           Some checksFailed \<Rightarrow>
             \<lparr> error = None,
               force = setProcessingErrors fallbackError
                         [\<lparr> pe_errorCode = checksFailed, pe_summary = None \<rparr>] \<rparr>
         | None \<Rightarrow>
             processErrorObjectResult (summariesOf B v options) v fallbackError)"

text \<open>No key of the options given: \<open>from(value)\<close>.\<close>

definition noOptions :: errorObjectBuildOptions where
  "noOptions =
     \<lparr> checkInputObjectForValues = RulesMissing, checkInputObjectForTypes = RulesMissing,
       checkInputObjectForKeys = RulesMissing, pathToErrors = PathsMissing,
       pathToCode = PathsMissing, pathToNumberCode = PathsMissing, pathToMessage = PathsMissing,
       pathToDetails = PathsMissing, pathToDomain = PathsMissing, transform = TransformMissing \<rparr>"

section \<open>The calls of the entry point, with exceptions\<close>

text \<open>
  The functions above give the value each call returns. Here the same calls are written
  with their exceptions: a call returns a value or throws, and a throw passes through
  every caller until a \<open>try\<close> of the source catches it. The calls that can throw are
  \<open>Object.entries\<close> on a \<open>null\<close> rule set and the caller's transform; the
  constructor and the setters of the imported \<open>ErrorObject\<close> are taken to return.
  \<open>andThen\<close> is one statement after another, \<open>tryCatch\<close> is
  \<open>try { body } catch { handler }\<close>, and \<open>callAll\<close> is the loop
  \<open>for (const x of xs) { ys.push(f(x)) }\<close>.
\<close>

fun andThen :: "'a outcome \<Rightarrow> ('a \<Rightarrow> 'b outcome) \<Rightarrow> 'b outcome" where
  "andThen (Returns x) k = k x"
| "andThen Throws k = Throws"

fun tryCatch :: "'a outcome \<Rightarrow> 'a outcome \<Rightarrow> 'a outcome" where
  "tryCatch (Returns x) handler = Returns x"
| "tryCatch Throws handler = handler"

fun callAll :: "('a \<Rightarrow> 'b outcome) \<Rightarrow> 'a list \<Rightarrow> 'b list outcome" where
  "callAll f [] = Returns []"
| "callAll f (x # xs) = andThen (f x) (\<lambda>y. andThen (callAll f xs) (\<lambda>ys. Returns (y # ys)))"

text \<open>The validator: its \<open>catch\<close> falls through to \<open>return undefined\<close>.\<close>

definition checkInputForInitialObject_run ::
  "js_env \<Rightarrow> jv \<Rightarrow> errorObjectBuildOptions \<Rightarrow> errorObjectErrorResult option outcome" where
  "checkInputForInitialObject_run B input options =
     tryCatch (checkInputForInitialObject_try B input options) (Returns None)"

text \<open>
  The body of the \<open>try\<close> block of \<open>buildSummaryFromObject\<close>: a throw of the
  transform leaves it.
\<close>

definition buildSummaryFromObject_try ::
  "js_env \<Rightarrow> jv \<Rightarrow> string option \<Rightarrow> bool \<Rightarrow> errorObjectBuildOptions
   \<Rightarrow> (errorObjectErrorResult + errorSummary) outcome" where
  "buildSummaryFromObject_try B maybeObject errorsPath didDetectErrorsArray options =
     (if maybeObject = JUndef \<or> maybeObject = JNull then Returns (Inl buildSummaryIsNullish)
      else
        let objectToParse = objectToParseOf B maybeObject
        in if typeof objectToParse \<noteq> ''object'' then Returns (Inl buildSummaryIsNotAnObject)
        else
          (case processAllValuesFromPaths B objectToParse options of
             Inl valuesResult \<Rightarrow> Returns (Inl valuesResult)
           | Inr r \<Rightarrow>
             if presentNotFunction (transform options) then Returns (Inl transformIsNotAFunction)
             else
               let beforeTransform =
                     \<lparr> ts_code = codeBeforeTransform r,
                       ts_numberCode = numberCodeBeforeTransform r,
                       ts_message = messageBeforeTransform r,
                       ts_details = detailsBeforeTransform r,
                       ts_domain = domainBeforeTransform r \<rparr>
               in andThen
                    (case transform options of
                       Transform f \<Rightarrow> f beforeTransform objectToParse
                     | _ \<Rightarrow> Returns (stateObject beforeTransform))
                    (\<lambda>values.
                       case checkTransformResult B values of
                         Some e \<Rightarrow> Returns (Inl e)
                       | None \<Rightarrow>
                         Returns (Inr
                           \<lparr> es_didDetectErrorsArray = (if didDetectErrorsArray then Some True else None),
                             es_input = objectToParse,
                             es_path = errorsPath,
                             es_value =
                               \<lparr> sv_code = stringEntry (codePath r) (codeBeforeTransform r)
                                             (getProp B values ''code''),
                                 sv_numberCode = numberEntry (numberCodePath r) (numberCodeBeforeTransform r)
                                             (getProp B values ''numberCode''),
                                 sv_message = stringEntry (messagePath r) (messageBeforeTransform r)
                                             (getProp B values ''message''),
                                 sv_details = stringEntry (detailsPath r) (detailsBeforeTransform r)
                                             (getProp B values ''details''),
                                 sv_domain = stringEntry (domainPath r) (domainBeforeTransform r)
                                             (getProp B values ''domain'') \<rparr> \<rparr>))))"

definition buildSummaryFromObject_run ::
  "js_env \<Rightarrow> jv \<Rightarrow> string option \<Rightarrow> bool \<Rightarrow> errorObjectBuildOptions
   \<Rightarrow> (errorObjectErrorResult + errorSummary) outcome" where
  "buildSummaryFromObject_run B maybeObject errorsPath didDetectErrorsArray options =
     tryCatch (buildSummaryFromObject_try B maybeObject errorsPath didDetectErrorsArray options)
       (Returns (Inl generalBuildSummaryFromObjectError))"

text \<open>The body of the \<open>try\<close> block of \<open>buildSummariesFromObject\<close>, and its \<open>catch\<close>.\<close>

definition buildSummariesFromObject_try ::
  "js_env \<Rightarrow> jv \<Rightarrow> errorObjectBuildOptions
   \<Rightarrow> (errorObjectErrorResult + errorSummary) list outcome" where
  "buildSummariesFromObject_try B input options =
     (if input = JUndef \<or> input = JNull then Returns [Inl isNullish]
      else if typeof input \<noteq> ''object'' then Returns [Inl isNotAnObject]
      else
        (case (case pathToErrors options of
                 PathsMissing \<Rightarrow> Inr ([], None, False)
               | PathsNotArray \<Rightarrow> Inl pathToErrorsIsNotAnArray
               | Paths ps \<Rightarrow> findErrorsArray B input ps) of
           Inl e \<Rightarrow> Returns [Inl e]
         | Inr (found, errorsPath, didDetectErrorsArray) \<Rightarrow>
             let errors = (if length found = 0 then [input] else found)
             in callAll (\<lambda>errorMaybeObject.
                           buildSummaryFromObject_run B errorMaybeObject errorsPath
                             didDetectErrorsArray options)
                  errors))"

definition buildSummariesFromObject_run ::
  "js_env \<Rightarrow> jv \<Rightarrow> errorObjectBuildOptions
   \<Rightarrow> (errorObjectErrorResult + errorSummary) list outcome" where
  "buildSummariesFromObject_run B input options =
     tryCatch (buildSummariesFromObject_try B input options)
       (Returns [Inl generalBuildSummariesFromObjectError])"

text \<open>
  \<open>from\<close> itself has no \<open>try\<close>: a throw of a call it makes would leave it. The
  aggregator's \<open>try\<close> block makes no call that can throw.
\<close>

definition from_run :: "js_env \<Rightarrow> jv \<Rightarrow> errorObjectBuildOptions \<Rightarrow> fromResult outcome" where
  "from_run B v withOptions =
     (let options = mergeOptions (DEFAULT_BUILD_OPTIONS B) withOptions;
          fallbackError = setRaw (ErrorObject_fallback B) v
      in andThen (checkInputForInitialObject_run B v options)
           (\<lambda>checksFailed.
              case checksFailed of
                Some c \<Rightarrow>
                  Returns \<lparr> error = None,
                            force = setProcessingErrors fallbackError
                                      [\<lparr> pe_errorCode = c, pe_summary = None \<rparr>] \<rparr>
              | None \<Rightarrow>
                  andThen
                    (if pathToErrors options \<noteq> PathsMissing
                     then buildSummariesFromObject_run B v options
                     else andThen (buildSummaryFromObject_run B v None False options)
                            (\<lambda>summary. Returns [summary]))
                    (\<lambda>summaries. Returns (processErrorObjectResult summaries v fallbackError))))"

section \<open>A reference environment\<close>

text \<open>
  The examples evaluate the model in one concrete environment. It agrees with JavaScript
  on the inputs the examples use: \<open>Number\<close> on strings of decimal digits (a number)
  and on strings that begin with a letter and are not the word Infinity (\<open>NaN\<close>); the
  string of an integer below \<open>10^21\<close> in magnitude; \<open>JSON.parse\<close> on the literals
  \<open>null\<close>, \<open>true\<close> and \<open>false\<close> and on texts that are not JSON, where it throws;
  \<open>JSON.stringify\<close> on trees whose strings need no escape beyond the quote and the
  backslash; plain objects and arrays, which inherit nothing under the keys the examples
  read. The code and message of \<open>ErrorObject.fallback()\<close> belong to the imported package;
  \<open>refFallback\<close> stands for that record.
\<close>

function natToDigits :: "nat \<Rightarrow> string" where
  "natToDigits n =
     (if n < 10 then [''0123456789'' ! n]
      else natToDigits (n div 10) @ [''0123456789'' ! (n mod 10)])"
  by pat_completeness auto
termination
  by (relation "measure id") auto

definition refNumber :: "string \<Rightarrow> jsnum" where
  "refNumber s = (if s \<noteq> [] \<and> list_all isDigit s then Fin (int (digitsToNat s)) else NaN)"

fun refNumberToString :: "jsnum \<Rightarrow> string" where
  "refNumberToString (Fin i) = (if i < 0 then CHR ''-'' # natToDigits (nat (- i)) else natToDigits (nat i))"
| "refNumberToString PosInf = ''Infinity''"
| "refNumberToString NegInf = ''-Infinity''"
| "refNumberToString NaN = ''NaN''"

definition refParse :: "string \<Rightarrow> jv option" where
  "refParse s =
     (if s = ''null'' then Some JNull
      else if s = ''true'' then Some (JBool True)
      else if s = ''false'' then Some (JBool False)
      else None)"

definition quoteString :: "string \<Rightarrow> string" where
  "quoteString s =
     [CHR 0x22] @ concat (map (\<lambda>c. if c = CHR 0x22 \<or> c = CHR 0x5C then [CHR 0x5C, c] else [c]) s)
     @ [CHR 0x22]"

fun joinWith :: "string \<Rightarrow> string list \<Rightarrow> string" where
  "joinWith sep [] = []"
| "joinWith sep [x] = x"
| "joinWith sep (x # y # ys) = x @ sep @ joinWith sep (y # ys)"

fun refStringifyOpt :: "jv \<Rightarrow> string option" where
  "refStringifyOpt JUndef = None"
| "refStringifyOpt (JFun f) = None"
| "refStringifyOpt JNull = Some ''null''"
| "refStringifyOpt (JBool b) = Some (if b then ''true'' else ''false'')"
| "refStringifyOpt (JNum n) = Some (case n of Fin i \<Rightarrow> refNumberToString (Fin i) | _ \<Rightarrow> ''null'')"
| "refStringifyOpt (JStr s) = Some (quoteString s)"
| "refStringifyOpt (JArr xs) =
     Some (''['' @ joinWith '','' (map (\<lambda>x. case refStringifyOpt x of None \<Rightarrow> ''null'' | Some s \<Rightarrow> s) xs) @ '']'')"
| "refStringifyOpt (JObj kvs) =
     Some (''{'' @ joinWith '',''
        (concat (map (\<lambda>kv. case refStringifyOpt (snd kv) of
                              None \<Rightarrow> []
                            | Some s \<Rightarrow> [quoteString (fst kv) @ '':'' @ s]) kvs)) @ ''}'')"

definition refStringify :: "jv \<Rightarrow> string" where
  "refStringify v = (case refStringifyOpt v of Some s \<Rightarrow> s | None \<Rightarrow> [])"

definition refFallback :: errorObject where
  "refFallback = ErrorObject ''fallback'' ''fallback'' JUndef JUndef JUndef None None None None"

definition refEnv :: js_env where
  "refEnv = \<lparr> JSON_parse = refParse, JSON_stringify = refStringify, Number_of = refNumber,
              Number_toString = refNumberToString, inherited = (\<lambda>v k. JUndef),
              ErrorObject_fallback = refFallback \<rparr>"

section \<open>The claims' notions\<close>

text \<open>
  The definitions of this section are not translations of the source: they say, in the
  words of the claims as the theorems below state them, what a search, a valid entry, a
  note, a record and a violation are. The theorems compare them with the functions above.
\<close>

text \<open>A value a string field accepts: a string, an array or an object.\<close>

fun accepted :: "jv \<Rightarrow> bool" where
  "accepted (JStr s) = True"
| "accepted (JArr xs) = True"
| "accepted (JObj kvs) = True"
| "accepted v = False"

text \<open>What is kept of an accepted value: a string as it is, an array or object serialized.\<close>

fun kept :: "js_env \<Rightarrow> jv \<Rightarrow> string" where
  "kept B (JStr s) = s"
| "kept B v = JSON_stringify B v"

text \<open>
  Ordered search: the first path of the list whose resolved value is accepted gives the
  field's value and is the winning path; with no such path the field has neither.
\<close>

definition firstAccepted :: "js_env \<Rightarrow> jv \<Rightarrow> string list \<Rightarrow> string option \<times> string option" where
  "firstAccepted B candidate paths =
     (case List.find (\<lambda>p. accepted (findNestedValueForPath B candidate p)) paths of
        None \<Rightarrow> (None, None)
      | Some p \<Rightarrow> (Some (kept B (findNestedValueForPath B candidate p)), Some p))"

text \<open>A number other than \<open>NaN\<close>, and the search for the first path resolving to one.\<close>

fun numberNotNaN :: "jv \<Rightarrow> jsnum option" where
  "numberNotNaN (JNum n) = (if n = NaN then None else Some n)"
| "numberNotNaN v = None"

definition firstNumber :: "js_env \<Rightarrow> jv \<Rightarrow> string list \<Rightarrow> jsnum option \<times> string option" where
  "firstNumber B candidate paths =
     (case List.find (\<lambda>p. numberNotNaN (findNestedValueForPath B candidate p) \<noteq> None) paths of
        None \<Rightarrow> (None, None)
      | Some p \<Rightarrow> (numberNotNaN (findNestedValueForPath B candidate p), Some p))"

text \<open>The elements of an array.\<close>

fun elementsOf :: "jv \<Rightarrow> jv list" where
  "elementsOf (JArr xs) = xs"
| "elementsOf v = []"

text \<open>A present string.\<close>

fun isString :: "jv \<Rightarrow> bool" where
  "isString (JStr s) = True"
| "isString v = False"

text \<open>
  An entry of the batch is valid when it is a summary whose code and message after the
  transform are both strings.
\<close>

fun validEntry :: "errorObjectErrorResult + errorSummary \<Rightarrow> bool" where
  "validEntry (Inl e) = False"
| "validEntry (Inr summary) =
     (isString (entryValue (sv_code (es_value summary)))
      \<and> isString (entryValue (sv_message (es_value summary))))"

text \<open>
  The Processing Note of an entry that is not valid: a failure sentinel is its own
  reason; a summary is noted with the reason \<open>unknownCodeOrMessage\<close>.
\<close>

fun noteOf :: "errorObjectErrorResult + errorSummary \<Rightarrow> errorObjectProcessingError" where
  "noteOf (Inl e) = \<lparr> pe_errorCode = e, pe_summary = None \<rparr>"
| "noteOf (Inr summary) = \<lparr> pe_errorCode = unknownCodeOrMessage, pe_summary = Some summary \<rparr>"

text \<open>
  A Final Record carries a valid entry: the summary as its trail, the summary's code
  and message as strings and its numberCode, details and domain as they are.
\<close>

fun carries :: "errorObject \<Rightarrow> errorObjectErrorResult + errorSummary \<Rightarrow> bool" where
  "carries r (Inl e) = False"
| "carries r (Inr summary) =
     (eo_summary r = Some summary
      \<and> JStr (eo_code r) = entryValue (sv_code (es_value summary))
      \<and> JStr (eo_message r) = entryValue (sv_message (es_value summary))
      \<and> eo_numberCode r = entryValue (sv_numberCode (es_value summary))
      \<and> eo_details r = entryValue (sv_details (es_value summary))
      \<and> eo_domain r = entryValue (sv_domain (es_value summary)))"

text \<open>
  The transform's result field by field: a string field is in violation when its value is
  truthy and not a string, \<open>numberCode\<close> when its value is neither \<open>undefined\<close> nor
  \<open>null\<close> and is not a number, or is \<open>NaN\<close>. The failure is that of the first field
  in violation, in the order code, numberCode, message, details, domain.
\<close>

fun isNumber :: "jv \<Rightarrow> bool" where
  "isNumber (JNum n) = True"
| "isNumber v = False"

definition stringViolation :: "jv \<Rightarrow> bool" where
  "stringViolation v = (truthy v \<and> \<not> isString v)"

definition firstViolation :: "jv \<Rightarrow> jv \<Rightarrow> jv \<Rightarrow> jv \<Rightarrow> jv \<Rightarrow> errorObjectErrorResult option" where
  "firstViolation code numberCode message details domain =
     (if stringViolation code then Some transformCodeResultIsNotString
      else if \<not> nullish numberCode \<and> \<not> isNumber numberCode
        then Some transformNumberCodeResultIsNotNumber
      else if numberCode = JNum NaN then Some transformNumberCodeResultIsNaN
      else if stringViolation message then Some transformMessageResultIsNotString
      else if stringViolation details then Some transformDetailsResultIsNotString
      else if stringViolation domain then Some transformDomainResultIsNotString
      else None)"

text \<open>
  The Field State invariant as the code keeps it: \<open>numberCode\<close> is absent or a number
  other than \<open>NaN\<close>; a string field after the transform is a string or a falsy value.
\<close>

fun numberOrAbsent :: "jv \<Rightarrow> bool" where
  "numberOrAbsent JUndef = True"
| "numberOrAbsent JNull = True"
| "numberOrAbsent (JNum n) = (n \<noteq> NaN)"
| "numberOrAbsent v = False"

definition stringOrFalsy :: "jv \<Rightarrow> bool" where
  "stringOrFalsy v = (isString v \<or> \<not> truthy v)"

text \<open>\<open>summary.value.numberCode?.beforeTransform\<close>.\<close>

definition entryBefore :: "'v pathValueAndTransform option \<Rightarrow> 'v option" where
  "entryBefore e = (case e of None \<Rightarrow> None | Some x \<Rightarrow> pvt_beforeTransform x)"

text \<open>The secondary-errors list of a record: none when the field is not set.\<close>

definition nextErrorsList :: "errorObject \<Rightarrow> errorObject list" where
  "nextErrorsList r = (case eo_nextErrors r of None \<Rightarrow> [] | Some rs \<Rightarrow> rs)"

section \<open>Properties of the Path Resolver\<close>

lemma String_split_not_Nil: "String_split sep s \<noteq> []"
  by (induction s) (auto split: list.splits)

lemma String_split_append_sep:
  "String_split sep (p @ sep # q) = String_split sep p @ String_split sep q"
proof (induction p)
  case Nil
  show ?case by simp
next
  case (Cons c p)
  show ?case
  proof (cases "c = sep")
    case True
    with Cons show ?thesis by simp
  next
    case False
    obtain w ws where w: "String_split sep p = w # ws"
      using String_split_not_Nil [of sep p] by (cases "String_split sep p") auto
    with False Cons show ?thesis by simp
  qed
qed

lemma String_split_only_seps:
  "set s \<subseteq> {sep} \<Longrightarrow> set (String_split sep s) \<subseteq> {[]}"
  by (induction s) auto

lemma resolveSegment_empty: "resolveSegment B acc [] = acc"
  by (simp add: resolveSegment_def)

lemma foldl_resolveSegment_empties:
  "set segs \<subseteq> {[]} \<Longrightarrow> foldl (resolveSegment B) v segs = v"
  by (induction segs arbitrary: v) (auto simp: resolveSegment_empty)

text \<open>
  Deleting the first \<open>[\<close> and the first \<open>]\<close> of \<open>p @ t @ q\<close> leaves a bracket-free
  middle part \<open>t\<close> where it is, and does not depend on it.
\<close>

lemma normalize_around:
  "\<exists>p' q'. \<forall>t. CHR ''['' \<notin> set t \<longrightarrow> CHR '']'' \<notin> set t \<longrightarrow>
     remove1 CHR '']'' (remove1 CHR ''['' (p @ t @ q)) = p' @ t @ q'"
proof (cases "CHR ''['' \<in> set p")
  case True
  show ?thesis
  proof (cases "CHR '']'' \<in> set (remove1 CHR ''['' p)")
    case True
    with \<open>CHR ''['' \<in> set p\<close> show ?thesis
      by (intro exI [of _ "remove1 CHR '']'' (remove1 CHR ''['' p)"] exI [of _ q])
         (simp add: remove1_append)
  next
    case False
    with \<open>CHR ''['' \<in> set p\<close> show ?thesis
      by (intro exI [of _ "remove1 CHR ''['' p"] exI [of _ "remove1 CHR '']'' q"])
         (simp add: remove1_append)
  qed
next
  case False
  show ?thesis
  proof (cases "CHR '']'' \<in> set p")
    case True
    with \<open>CHR ''['' \<notin> set p\<close> show ?thesis
      by (intro exI [of _ "remove1 CHR '']'' p"] exI [of _ "remove1 CHR ''['' q"])
         (simp add: remove1_append)
  next
    case False
    with \<open>CHR ''['' \<notin> set p\<close> show ?thesis
      by (intro exI [of _ p] exI [of _ "remove1 CHR '']'' (remove1 CHR ''['' q)"])
         (simp add: remove1_append)
  qed
qed

lemma findNestedValueForPath_double_dot:
  "findNestedValueForPath B v (p @ ''..'' @ q) = findNestedValueForPath B v (p @ ''.'' @ q)"
proof -
  obtain p' q' where n: "\<And>t. CHR ''['' \<notin> set t \<Longrightarrow> CHR '']'' \<notin> set t \<Longrightarrow>
      remove1 CHR '']'' (remove1 CHR ''['' (p @ t @ q)) = p' @ t @ q'"
    using normalize_around [of p q] by auto
  have n2: "remove1 CHR '']'' (remove1 CHR ''['' (p @ ''..'' @ q)) = p' @ ''..'' @ q'"
    by (rule n) simp_all
  have n1: "remove1 CHR '']'' (remove1 CHR ''['' (p @ ''.'' @ q)) = p' @ ''.'' @ q'"
    by (rule n) simp_all
  have s2: "String_split CHR ''.'' (p' @ ''..'' @ q')
      = String_split CHR ''.'' p' @ [] # String_split CHR ''.'' q'"
    using String_split_append_sep [of "CHR ''.''" p' "CHR ''.'' # q'"] by simp
  have s1: "String_split CHR ''.'' (p' @ ''.'' @ q')
      = String_split CHR ''.'' p' @ String_split CHR ''.'' q'"
    using String_split_append_sep [of "CHR ''.''" p' q'] by simp
  show ?thesis
    unfolding findNestedValueForPath_def Let_def n1 n2 s1 s2
    by (simp add: resolveSegment_empty)
qed

lemma findNestedValueForPath_only_dots:
  assumes "truthy v" "path \<noteq> []" "set path \<subseteq> {CHR ''.''}"
  shows "findNestedValueForPath B v path = v"
proof -
  have "CHR ''['' \<notin> set path" "CHR '']'' \<notin> set path" using assms(3) by auto
  then have n: "remove1 CHR '']'' (remove1 CHR ''['' path) = path"
    by (simp add: remove1_idem)
  show ?thesis
    using assms(1,2) foldl_resolveSegment_empties [OF String_split_only_seps [OF assms(3)]]
    by (simp add: findNestedValueForPath_def n)
qed

lemma findNestedValueForPath_falsy: "\<not> truthy v \<Longrightarrow> findNestedValueForPath B v path = JUndef"
  by (simp add: findNestedValueForPath_def)

text \<open>
  Claim C4, as stated: for every value, the path \<open>a[0].b\<close> resolves like \<open>a.0.b\<close>.
  It fails: the two bracket characters are deleted, no dot takes their place, and
  \<open>a[0].b\<close> is read as \<open>a0.b\<close>. On \<open>{a: [{b: "x"}]}\<close> the dotted path finds
  \<open>"x"\<close> and the bracketed one finds nothing.
\<close>

theorem bracket_path_differs_from_dotted:
  "findNestedValueForPath refEnv (JObj [(''a'', JArr [JObj [(''b'', JStr ''x'')]])]) ''a[0].b'' = JUndef
   \<and> findNestedValueForPath refEnv (JObj [(''a'', JArr [JObj [(''b'', JStr ''x'')]])]) ''a.0.b''
       = JStr ''x''"
  by code_simp

text \<open>
  Claim C4, amended: a path with one bracket pair resolves, for every value, like the path
  with the two bracket characters deleted: \<open>a[0].b\<close> like \<open>a0.b\<close>, and \<open>a.[0].b\<close>
  like \<open>a.0.b\<close>.
\<close>

theorem bracket_chars_are_deleted:
  assumes "CHR ''['' \<notin> set (p @ i @ q)" and "CHR '']'' \<notin> set (p @ i @ q)"
  shows "findNestedValueForPath B v (p @ ''['' @ i @ '']'' @ q)
         = findNestedValueForPath B v (p @ i @ q)"
proof -
  have l: "remove1 CHR '']'' (remove1 CHR ''['' (p @ ''['' @ i @ '']'' @ q)) = p @ i @ q"
    using assms by (simp add: remove1_append)
  have r: "remove1 CHR '']'' (remove1 CHR ''['' (p @ i @ q)) = p @ i @ q"
    using assms by (simp add: remove1_idem)
  show ?thesis
    unfolding findNestedValueForPath_def Let_def l r by auto
qed

theorem bracket_chars_are_deleted_witness:
  "findNestedValueForPath refEnv
     (JObj [(''a'', JArr [JObj [(''b'', JStr ''x'')]]), (''a0'', JObj [(''b'', JStr ''y'')])])
     ''a[0].b'' = JStr ''y''
   \<and> findNestedValueForPath refEnv (JObj [(''a'', JArr [JObj [(''b'', JStr ''x'')]])]) ''a.[0].b''
       = JStr ''x''"
proof -
  have 1: "findNestedValueForPath refEnv
     (JObj [(''a'', JArr [JObj [(''b'', JStr ''x'')]]), (''a0'', JObj [(''b'', JStr ''y'')])])
     ''a0.b'' = JStr ''y''"
    by code_simp
  have 2: "findNestedValueForPath refEnv (JObj [(''a'', JArr [JObj [(''b'', JStr ''x'')]])]) ''a.0.b''
       = JStr ''x''"
    by code_simp
  show ?thesis
    using 1 2
      bracket_chars_are_deleted [of "''a''" "''0''" "''.b''" refEnv
        "JObj [(''a'', JArr [JObj [(''b'', JStr ''x'')]]), (''a0'', JObj [(''b'', JStr ''y'')])]"]
      bracket_chars_are_deleted [of "''a.''" "''0''" "''.b''" refEnv
        "JObj [(''a'', JArr [JObj [(''b'', JStr ''x'')]])]"]
    by simp
qed

text \<open>
  Claim C10, as stated: for every value \<open>v\<close>, a path made only of separators returns
  \<open>v\<close> itself. It fails for the falsy values, which the guard \<open>!path || !value\<close>
  answers with \<open>undefined\<close>: on the number \<open>0\<close> the path \<open>.\<close> gives \<open>undefined\<close>.
\<close>

theorem separator_path_on_zero_is_undefined:
  "findNestedValueForPath refEnv (JNum (Fin 0)) ''.'' = JUndef"
  by code_simp

text \<open>
  Claim C10, amended: for every truthy value \<open>v\<close> and every non-empty path made only of
  dots, path resolution returns \<open>v\<close> itself (for a falsy \<open>v\<close> every path gives
  \<open>undefined\<close>); empty segments are skipped, so for every \<open>v\<close> a path \<open>p..q\<close>
  resolves identically to \<open>p.q\<close>.
\<close>

theorem empty_segments_are_skipped:
  "(truthy v \<longrightarrow> path \<noteq> [] \<longrightarrow> set path \<subseteq> {CHR ''.''} \<longrightarrow> findNestedValueForPath B v path = v)
   \<and> (\<not> truthy v \<longrightarrow> findNestedValueForPath B v path = JUndef)
   \<and> findNestedValueForPath B v (p @ ''..'' @ q) = findNestedValueForPath B v (p @ ''.'' @ q)"
  using findNestedValueForPath_only_dots [of v path B] findNestedValueForPath_falsy [of v B path]
    findNestedValueForPath_double_dot [of B v p q]
  by blast

theorem empty_segments_are_skipped_witness:
  "findNestedValueForPath refEnv (JObj [(''a'', JStr ''x'')]) ''..'' = JObj [(''a'', JStr ''x'')]
   \<and> findNestedValueForPath refEnv (JObj [(''a'', JObj [(''b'', JStr ''x'')])]) ''a..b'' = JStr ''x''
   \<and> findNestedValueForPath refEnv (JObj [(''a'', JObj [(''b'', JStr ''x'')])]) ''a.b'' = JStr ''x''"
proof -
  have 1: "findNestedValueForPath refEnv (JObj [(''a'', JObj [(''b'', JStr ''x'')])]) ''a.b'' = JStr ''x''"
    by code_simp
  show ?thesis
    using 1
      empty_segments_are_skipped [of "JObj [(''a'', JStr ''x'')]" "''..''" refEnv "[]" "[]"]
      empty_segments_are_skipped [of "JObj [(''a'', JObj [(''b'', JStr ''x'')])]" "[]" refEnv
        "''a''" "''b''"]
    by simp
qed

section \<open>Properties of the Field Extractor\<close>

lemma stringValueAt_accepted:
  "stringValueAt B obj p =
     (if accepted (findNestedValueForPath B obj p)
      then Some (kept B (findNestedValueForPath B obj p)) else None)"
  by (cases "findNestedValueForPath B obj p") (simp_all add: stringValueAt_def)

lemma stringValueFromPaths_firstAccepted:
  "stringValueFromPaths B obj e (map JStr ps) = Inr (firstAccepted B obj ps)"
  by (induction ps) (simp_all add: firstAccepted_def stringValueAt_accepted)

lemma numberValueAt_numberNotNaN:
  "numberValueAt B obj p = numberNotNaN (findNestedValueForPath B obj p)"
proof (cases "findNestedValueForPath B obj p")
  case (JNum n)
  then show ?thesis by (cases n) (simp_all add: numberValueAt_def)
qed (simp_all add: numberValueAt_def)

lemma numberValueFromPaths_firstNumber:
  "numberValueFromPaths B obj (map JStr ps) = Inr (firstNumber B obj ps)"
  by (induction ps) (auto simp: firstNumber_def numberValueAt_numberNotNaN split: option.splits)

text \<open>
  Claim C6, as stated: the first path yielding a non-null value, of any type, is accepted,
  so a later path never wins over it. It fails: a number is passed over. On the candidate
  \<open>{code: 5, err_code: "E"}\<close> with the default paths, \<open>code\<close> resolves to the number
  5 and the code found is \<open>"E"\<close>, from the later path \<open>err_code\<close>.
\<close>

theorem later_path_wins_over_number:
  "findNestedValueForPath refEnv (JObj [(''code'', JNum (Fin 5)), (''err_code'', JStr ''E'')]) ''code''
     = JNum (Fin 5)
   \<and> map_sum id (\<lambda>r. (codeBeforeTransform r, codePath r))
       (processAllValuesFromPaths refEnv (JObj [(''code'', JNum (Fin 5)), (''err_code'', JStr ''E'')])
          (DEFAULT_BUILD_OPTIONS refEnv))
     = Inr (Some ''E'', Some ''err_code'')"
  by code_simp

text \<open>
  Claim C6, amended: for every candidate object and every configured list of string paths,
  each of the fields code, message, details and domain is searched in list order and the
  first path whose resolved value is a string, an array or an object is accepted (a path
  resolving to \<open>undefined\<close>, \<open>null\<close>, a number, a boolean or a function is passed
  over, so a later path wins over it); a string is kept as it is and an array or object
  as its JSON-serialized string. For numberCode the first path resolving to a number
  other than \<open>NaN\<close> is accepted.
\<close>

theorem first_accepted_path_wins:
  assumes "pathToCode options = Paths (map JStr cs)"
    and "pathToNumberCode options = Paths (map JStr ns)"
    and "pathToMessage options = Paths (map JStr ms)"
    and "pathToDetails options = Paths (map JStr ds)"
    and "pathToDomain options = Paths (map JStr dms)"
  shows "\<exists>r. processAllValuesFromPaths B candidate options = Inr r
           \<and> (codeBeforeTransform r, codePath r) = firstAccepted B candidate cs
           \<and> (messageBeforeTransform r, messagePath r) = firstAccepted B candidate ms
           \<and> (detailsBeforeTransform r, detailsPath r) = firstAccepted B candidate ds
           \<and> (domainBeforeTransform r, domainPath r) = firstAccepted B candidate dms
           \<and> (numberCodeBeforeTransform r, numberCodePath r) = firstNumber B candidate ns"
  using assms
  by (simp add: processAllValuesFromPaths_def stringField_def numberField_def
      stringValueFromPaths_firstAccepted numberValueFromPaths_firstNumber split: prod.splits)

theorem first_accepted_path_wins_witness:
  "\<exists>r. processAllValuesFromPaths refEnv
          (JObj [(''code'', JNum (Fin 5)), (''err_code'', JStr ''E''), (''error_code'', JStr ''F''),
                 (''message'', JArr [JStr ''m'']), (''err_message'', JStr ''n'')])
          (noOptions\<lparr> pathToCode := Paths [JStr ''code'', JStr ''err_code'', JStr ''error_code''],
                      pathToNumberCode := Paths [JStr ''err_code'', JStr ''code''],
                      pathToMessage := Paths [JStr ''message'', JStr ''err_message''],
                      pathToDetails := Paths [],
                      pathToDomain := Paths [JStr ''domain''] \<rparr>) = Inr r
        \<and> (codeBeforeTransform r, codePath r) = (Some ''E'', Some ''err_code'')
        \<and> (messageBeforeTransform r, messagePath r)
            = (Some [CHR ''['', CHR 0x22, CHR ''m'', CHR 0x22, CHR '']''], Some ''message'')
        \<and> (detailsBeforeTransform r, detailsPath r) = (None, None)
        \<and> (domainBeforeTransform r, domainPath r) = (None, None)
        \<and> (numberCodeBeforeTransform r, numberCodePath r) = (Some (Fin 5), Some ''code'')"
proof -
  let ?c = "JObj [(''code'', JNum (Fin 5)), (''err_code'', JStr ''E''), (''error_code'', JStr ''F''),
                 (''message'', JArr [JStr ''m'']), (''err_message'', JStr ''n'')]"
  have 1: "firstAccepted refEnv ?c [''code'', ''err_code'', ''error_code'']
           = (Some ''E'', Some ''err_code'')"
    by code_simp
  have 2: "firstAccepted refEnv ?c [''message'', ''err_message'']
           = (Some [CHR ''['', CHR 0x22, CHR ''m'', CHR 0x22, CHR '']''], Some ''message'')"
    by code_simp
  have 3: "firstAccepted refEnv ?c [] = (None, None)"
    by code_simp
  have 4: "firstAccepted refEnv ?c [''domain''] = (None, None)"
    by code_simp
  have 5: "firstNumber refEnv ?c [''err_code'', ''code''] = (Some (Fin 5), Some ''code'')"
    by code_simp
  show ?thesis
    using first_accepted_path_wins [of
        "noOptions\<lparr> pathToCode := Paths [JStr ''code'', JStr ''err_code'', JStr ''error_code''],
                      pathToNumberCode := Paths [JStr ''err_code'', JStr ''code''],
                      pathToMessage := Paths [JStr ''message'', JStr ''err_message''],
                      pathToDetails := Paths [],
                      pathToDomain := Paths [JStr ''domain''] \<rparr>"
        "[''code'', ''err_code'', ''error_code'']" "[''err_code'', ''code'']"
        "[''message'', ''err_message'']" "[]" "[''domain'']" refEnv ?c]
    unfolding 1 2 3 4 5 by simp
qed

lemma objectToParseOf_object:
  "json \<noteq> JUndef \<Longrightarrow> json \<noteq> JNull \<Longrightarrow> typeof json = ''object'' \<Longrightarrow> objectToParseOf B json = json"
  by (cases json) (simp_all add: objectToParseOf_def)

lemma parsedObject_cases:
  "parsedObject B s =
     (case JSON_parse B s of
        None \<Rightarrow> JUndef
      | Some json \<Rightarrow> if json \<noteq> JUndef \<and> json \<noteq> JNull \<and> typeof json = ''object'' then json else JUndef)"
  by (simp add: parsedObject_def split: option.splits)

lemma parsedObject_not_string: "parsedObject B s \<noteq> JStr t"
  by (auto simp: parsedObject_def split: option.splits)

lemma objectToParseOf_string:
  "objectToParseOf B (JStr s) = (if parsedObject B s = JUndef then JStr s else parsedObject B s)"
proof -
  have "parsedObject B s \<noteq> JNull"
    by (auto simp: parsedObject_def split: option.splits)
  then show ?thesis
    by (simp add: objectToParseOf_def Let_def parsedObject_not_string)
qed

text \<open>
  Claim C5: a string candidate is JSON-decoded; a decoded object is used as the
  candidate, and a string that does not decode, or decodes to a non-object, becomes the
  synthetic object \<open>{code: "unknown", message: <the string>}\<close>. The code builds that
  object only when \<open>objectToParse === maybeObject\<close>, which compares \<open>undefined\<close> or
  the decoded object with the string and never holds. What the code does: a decoded
  object is used as the candidate, and every other string candidate ends with the failure
  sentinel \<open>buildSummaryIsNotAnObject\<close>.
\<close>

theorem string_candidate_is_decoded_or_rejected:
  "buildSummaryFromObject B (JStr s) errorsPath did options =
     (case JSON_parse B s of
        None \<Rightarrow> Inl buildSummaryIsNotAnObject
      | Some json \<Rightarrow>
          if json \<noteq> JUndef \<and> json \<noteq> JNull \<and> typeof json = ''object''
          then buildSummaryFromObject B json errorsPath did options
          else Inl buildSummaryIsNotAnObject)"
proof (cases "parsedObject B s = JUndef")
  case True
  then have "objectToParseOf B (JStr s) = JStr s"
    by (simp add: objectToParseOf_string)
  then have "buildSummaryFromObject B (JStr s) errorsPath did options = Inl buildSummaryIsNotAnObject"
    by (simp add: buildSummaryFromObject_def)
  with True show ?thesis
    by (auto simp: parsedObject_def split: option.splits)
next
  case False
  then obtain json where j: "JSON_parse B s = Some json" "json \<noteq> JUndef" "json \<noteq> JNull"
      "typeof json = ''object''" "parsedObject B s = json"
    by (auto simp: parsedObject_def split: option.splits if_splits)
  then have p: "objectToParseOf B (JStr s) = json"
    by (simp add: objectToParseOf_string)
  have o: "objectToParseOf B json = json"
    using j by (simp add: objectToParseOf_object)
  have "buildSummaryFromObject B (JStr s) errorsPath did options
        = buildSummaryFromObject B json errorsPath did options"
    unfolding buildSummaryFromObject_def p o using j by simp
  with j show ?thesis by simp
qed


theorem string_candidate_is_decoded_or_rejected_witness:
  "buildSummaryFromObject refEnv (JStr ''boom'') (Some ''errors'') True (DEFAULT_BUILD_OPTIONS refEnv)
     = Inl buildSummaryIsNotAnObject
   \<and> error (fromPayload refEnv (JObj [(''errors'', JArr [JStr ''boom''])]) noOptions) = None"
proof -
  have "error (fromPayload refEnv (JObj [(''errors'', JArr [JStr ''boom''])]) noOptions) = None"
    by code_simp
  moreover have "JSON_parse refEnv ''boom'' = None"
    by (simp add: refEnv_def refParse_def)
  ultimately show ?thesis
    using string_candidate_is_decoded_or_rejected [of refEnv "''boom''" "Some ''errors''" True
        "DEFAULT_BUILD_OPTIONS refEnv"]
    by simp
qed

lemma typeof_string_isString: "(typeof v = ''string'') = isString v"
  by (cases v) simp_all

lemma typeof_number_isNumber: "(typeof v = ''number'') = isNumber v"
  by (cases v) simp_all

lemma nullish_iff: "nullish v = (v = JUndef \<or> v = JNull)"
  by (cases v) simp_all

lemma valueIsNaN_iff: "valueIsNaN v = (v = JNum NaN)"
proof (cases v)
  case (JNum n)
  then show ?thesis by (cases n) (simp_all add: valueIsNaN_def)
qed (simp_all add: valueIsNaN_def)

lemma checkTransformResult_firstViolation:
  assumes "values \<noteq> JUndef" "values \<noteq> JNull" "typeof values = ''object''"
  shows "checkTransformResult B values =
           firstViolation (getProp B values ''code'') (getProp B values ''numberCode'')
             (getProp B values ''message'') (getProp B values ''details'')
             (getProp B values ''domain'')"
  using assms
  unfolding checkTransformResult_def firstViolation_def stringViolation_def
    typeof_string_isString typeof_number_isNumber valueIsNaN_iff nullish_iff
  by auto

text \<open>
  Claim C7, as stated: when the transform's output has a code, message, details or domain
  that is present but not a string, or a numberCode that is present but not a finite
  non-NaN number, the extraction returns that field's failure sentinel and no summary. It
  fails: a string field is only checked when its value is truthy, and a number is only
  checked against \<open>NaN\<close>. A transform returning
  \<open>{code: false, numberCode: Infinity, message: "m"}\<close> passes the validation, and the
  summary holds \<open>false\<close> as the code and \<open>Infinity\<close> as the numberCode.
\<close>

theorem falsy_code_and_infinite_number_pass:
  "map_sum id (\<lambda>s. (entryValue (sv_code (es_value s)), entryValue (sv_numberCode (es_value s))))
     (buildSummaryFromObject refEnv (JObj [(''code'', JStr ''E''), (''message'', JStr ''m'')]) None False
        ((DEFAULT_BUILD_OPTIONS refEnv)
           \<lparr> transform := Transform (\<lambda>beforeTransform inputObject.
                 Returns (JObj [(''code'', JBool False), (''numberCode'', JNum PosInf),
                                (''message'', JStr ''m'')])) \<rparr>))
   = Inr (JBool False, JNum PosInf)"
  by code_simp

text \<open>
  Claim C7, amended: for every candidate and every configured transform function that
  returns an object, the output is validated field by field: if any of code, message,
  details or domain is truthy and not a string, or numberCode is neither \<open>undefined\<close>
  nor \<open>null\<close> and is not a number, or is \<open>NaN\<close>, the extraction returns the failure
  sentinel of the first such field (in the order code, numberCode, message, details,
  domain) and no summary is produced for that candidate; otherwise a summary is produced.
\<close>

theorem transform_output_is_validated:
  assumes "candidate \<noteq> JUndef" and "candidate \<noteq> JNull"
    and "typeof (objectToParseOf B candidate) = ''object''"
    and "processAllValuesFromPaths B (objectToParseOf B candidate) options = Inr r"
    and "transform options = Transform f"
    and "f \<lparr> ts_code = codeBeforeTransform r, ts_numberCode = numberCodeBeforeTransform r,
             ts_message = messageBeforeTransform r, ts_details = detailsBeforeTransform r,
             ts_domain = domainBeforeTransform r \<rparr> (objectToParseOf B candidate) = Returns values"
    and "values \<noteq> JUndef" and "values \<noteq> JNull" and "typeof values = ''object''"
  shows "case firstViolation (getProp B values ''code'') (getProp B values ''numberCode'')
               (getProp B values ''message'') (getProp B values ''details'')
               (getProp B values ''domain'') of
           Some e \<Rightarrow> buildSummaryFromObject B candidate errorsPath did options = Inl e
         | None \<Rightarrow> \<exists>s. buildSummaryFromObject B candidate errorsPath did options = Inr s"
  using assms checkTransformResult_firstViolation [of "values" B]
  by (simp add: buildSummaryFromObject_def Let_def split: option.splits)

theorem transform_output_is_validated_witness:
  "buildSummaryFromObject refEnv (JObj [(''code'', JStr ''E''), (''message'', JStr ''m'')]) None False
     ((DEFAULT_BUILD_OPTIONS refEnv)
        \<lparr> transform := Transform (\<lambda>beforeTransform inputObject.
              Returns (JObj [(''code'', JStr ''E''), (''numberCode'', JNum NaN),
                             (''message'', JNum (Fin 5))])) \<rparr>)
   = Inl transformNumberCodeResultIsNaN"
proof -
  let ?c = "JObj [(''code'', JStr ''E''), (''message'', JStr ''m'')]"
  let ?vals = "JObj [(''code'', JStr ''E''), (''numberCode'', JNum NaN), (''message'', JNum (Fin 5))]"
  let ?f = "\<lambda>(beforeTransform :: errorObjectTransformState) (inputObject :: jv). Returns ?vals"
  let ?o = "(DEFAULT_BUILD_OPTIONS refEnv) \<lparr> transform := Transform ?f \<rparr>"
  let ?r = "\<lparr> codeBeforeTransform = Some ''E'', codePath = Some ''code'',
              numberCodeBeforeTransform = None, numberCodePath = None,
              messageBeforeTransform = Some ''m'', messagePath = Some ''message'',
              detailsBeforeTransform = None, detailsPath = None,
              domainBeforeTransform = None, domainPath = None \<rparr>"
  have o: "objectToParseOf refEnv ?c = ?c"
    by code_simp
  have r: "processAllValuesFromPaths refEnv ?c ?o = Inr ?r"
    by code_simp
  have v: "firstViolation (getProp refEnv ?vals ''code'') (getProp refEnv ?vals ''numberCode'')
             (getProp refEnv ?vals ''message'') (getProp refEnv ?vals ''details'')
             (getProp refEnv ?vals ''domain'') = Some transformNumberCodeResultIsNaN"
    by code_simp
  have "case firstViolation (getProp refEnv ?vals ''code'') (getProp refEnv ?vals ''numberCode'')
               (getProp refEnv ?vals ''message'') (getProp refEnv ?vals ''details'')
               (getProp refEnv ?vals ''domain'') of
           Some e \<Rightarrow> buildSummaryFromObject refEnv ?c None False ?o = Inl e
         | None \<Rightarrow> \<exists>s. buildSummaryFromObject refEnv ?c None False ?o = Inr s"
    by (rule transform_output_is_validated [where f = ?f and r = ?r])
       (simp_all add: o r)
  then show ?thesis
    unfolding v by simp
qed

lemma numberValueFromPaths_not_NaN:
  "numberValueFromPaths B obj ps = Inr (n, p) \<Longrightarrow> n \<noteq> Some NaN"
proof (induction B obj ps rule: numberValueFromPaths.induct)
  case (2 B obj path rest)
  then show ?case
    by (cases "findNestedValueForPath B obj path")
       (auto simp: numberValueAt_def split: if_splits option.splits)
qed simp_all

lemma processAllValuesFromPaths_not_NaN:
  assumes "processAllValuesFromPaths B obj options = Inr r"
  shows "numberCodeBeforeTransform r \<noteq> Some NaN"
proof -
  from assms obtain n p where "numberField B obj (pathToNumberCode options) = Inr (n, p)"
      and "numberCodeBeforeTransform r = n"
    by (auto simp: processAllValuesFromPaths_def split: sum.splits prod.splits)
  then show ?thesis
    using numberValueFromPaths_not_NaN
    by (auto simp: numberField_def split: pathsOption.splits)
qed

lemma firstViolation_None:
  assumes "firstViolation c n m d dm = None"
  shows "stringOrFalsy c \<and> numberOrAbsent n \<and> stringOrFalsy m \<and> stringOrFalsy d \<and> stringOrFalsy dm"
proof -
  have "numberOrAbsent n"
    using assms by (cases n) (auto simp: firstViolation_def split: if_splits)
  then show ?thesis
    using assms by (auto simp: firstViolation_def stringViolation_def stringOrFalsy_def split: if_splits)
qed

lemma checkTransformResult_None_object:
  "checkTransformResult B values = None \<Longrightarrow>
     values \<noteq> JUndef \<and> values \<noteq> JNull \<and> typeof values = ''object''"
  by (auto simp: checkTransformResult_def split: if_splits)

lemma stringEntry_value: "stringOrFalsy v \<Longrightarrow> stringOrFalsy (entryValue (stringEntry p b v))"
  by (simp add: stringEntry_def entryValue_def stringOrFalsy_def)

lemma numberEntry_value: "numberOrAbsent v \<Longrightarrow> numberOrAbsent (entryValue (numberEntry p b v))"
  by (simp add: numberEntry_def entryValue_def)

lemma numberEntry_before: "b \<noteq> Some NaN \<Longrightarrow> entryBefore (numberEntry p b v) \<noteq> Some NaN"
  by (simp add: numberEntry_def entryBefore_def)

lemma buildSummaryFromObject_Inr:
  assumes "buildSummaryFromObject B c ep did options = Inr s"
  shows "\<exists>r values.
           processAllValuesFromPaths B (objectToParseOf B c) options = Inr r
           \<and> checkTransformResult B values = None
           \<and> es_value s =
               \<lparr> sv_code = stringEntry (codePath r) (codeBeforeTransform r) (getProp B values ''code''),
                 sv_numberCode = numberEntry (numberCodePath r) (numberCodeBeforeTransform r)
                                   (getProp B values ''numberCode''),
                 sv_message = stringEntry (messagePath r) (messageBeforeTransform r)
                                   (getProp B values ''message''),
                 sv_details = stringEntry (detailsPath r) (detailsBeforeTransform r)
                                   (getProp B values ''details''),
                 sv_domain = stringEntry (domainPath r) (domainBeforeTransform r)
                                   (getProp B values ''domain'') \<rparr>"
  using assms
  unfolding buildSummaryFromObject_def Let_def
  by (auto split: if_splits sum.splits outcome.splits option.splits)

text \<open>
  Claim C8, as stated: in every Field State, the numberCode, when present, is a finite
  non-NaN number, and every other present field is a string. It fails on both counts: the
  code compares a number with \<open>NaN\<close> only, so for the payload
  \<open>{code: "E", message: "m", numberCode: Infinity}\<close> the numberCode found before the
  transform, and kept after it, is \<open>Infinity\<close>; and a transform result with the code
  \<open>0\<close> passes the validation, so the summary's code after the transform is a number.
\<close>

theorem infinite_number_and_number_code_in_state:
  "map_sum id (\<lambda>s. (entryBefore (sv_numberCode (es_value s)), entryValue (sv_numberCode (es_value s))))
     (buildSummaryFromObject refEnv
        (JObj [(''code'', JStr ''E''), (''message'', JStr ''m''), (''numberCode'', JNum PosInf)])
        None False (DEFAULT_BUILD_OPTIONS refEnv))
   = Inr (Some PosInf, JNum PosInf)
   \<and> map_sum id (\<lambda>s. entryValue (sv_code (es_value s)))
     (buildSummaryFromObject refEnv (JObj [(''code'', JStr ''E''), (''message'', JStr ''m'')]) None False
        ((DEFAULT_BUILD_OPTIONS refEnv)
           \<lparr> transform := Transform (\<lambda>beforeTransform inputObject.
                 Returns (JObj [(''code'', JNum (Fin 0)), (''message'', JStr ''m'')])) \<rparr>))
   = Inr (JNum (Fin 0))"
  by code_simp

text \<open>
  Claim C8, amended: in every Field State of a summary the engine produces, the numberCode
  found before the transform, when present, is a number other than \<open>NaN\<close> (possibly
  infinite), and the numberCode after the transform is absent (\<open>undefined\<close> or \<open>null\<close>)
  or a number other than \<open>NaN\<close>; every other field found before the transform is a
  string (its type in the model, as the source declares it), and every other field after
  the transform is a string or a falsy value (\<open>undefined\<close>, \<open>null\<close>, \<open>false\<close>,
  \<open>0\<close>, \<open>NaN\<close>).
\<close>

theorem field_state_invariant:
  assumes "buildSummaryFromObject B candidate errorsPath did options = Inr s"
  shows "entryBefore (sv_numberCode (es_value s)) \<noteq> Some NaN
       \<and> numberOrAbsent (entryValue (sv_numberCode (es_value s)))
       \<and> stringOrFalsy (entryValue (sv_code (es_value s)))
       \<and> stringOrFalsy (entryValue (sv_message (es_value s)))
       \<and> stringOrFalsy (entryValue (sv_details (es_value s)))
       \<and> stringOrFalsy (entryValue (sv_domain (es_value s)))"
proof -
  from buildSummaryFromObject_Inr [OF assms] obtain r vals where
      r: "processAllValuesFromPaths B (objectToParseOf B candidate) options = Inr r"
    and c: "checkTransformResult B vals = None"
    and v: "es_value s =
               \<lparr> sv_code = stringEntry (codePath r) (codeBeforeTransform r) (getProp B vals ''code''),
                 sv_numberCode = numberEntry (numberCodePath r) (numberCodeBeforeTransform r)
                                   (getProp B vals ''numberCode''),
                 sv_message = stringEntry (messagePath r) (messageBeforeTransform r)
                                   (getProp B vals ''message''),
                 sv_details = stringEntry (detailsPath r) (detailsBeforeTransform r)
                                   (getProp B vals ''details''),
                 sv_domain = stringEntry (domainPath r) (domainBeforeTransform r)
                                   (getProp B vals ''domain'') \<rparr>"
    by blast
  from c have "firstViolation (getProp B vals ''code'') (getProp B vals ''numberCode'')
             (getProp B vals ''message'') (getProp B vals ''details'')
             (getProp B vals ''domain'') = None"
    using checkTransformResult_firstViolation [of vals B] checkTransformResult_None_object [of B vals]
    by simp
  from firstViolation_None [OF this] processAllValuesFromPaths_not_NaN [OF r]
  show ?thesis
    unfolding v
    by (simp add: stringEntry_value numberEntry_value numberEntry_before)
qed


theorem field_state_invariant_witness:
  "\<exists>s. buildSummaryFromObject refEnv
          (JObj [(''code'', JStr ''E''), (''message'', JStr ''m''), (''numberCode'', JNum (Fin 7))])
          None False (DEFAULT_BUILD_OPTIONS refEnv) = Inr s
        \<and> entryBefore (sv_numberCode (es_value s)) = Some (Fin 7)
        \<and> entryBefore (sv_numberCode (es_value s)) \<noteq> Some NaN
        \<and> numberOrAbsent (entryValue (sv_numberCode (es_value s)))
        \<and> stringOrFalsy (entryValue (sv_code (es_value s)))
        \<and> stringOrFalsy (entryValue (sv_message (es_value s)))
        \<and> stringOrFalsy (entryValue (sv_details (es_value s)))
        \<and> stringOrFalsy (entryValue (sv_domain (es_value s)))"
proof -
  let ?b = "buildSummaryFromObject refEnv
          (JObj [(''code'', JStr ''E''), (''message'', JStr ''m''), (''numberCode'', JNum (Fin 7))])
          None False (DEFAULT_BUILD_OPTIONS refEnv)"
  have "map_sum id (\<lambda>s. entryBefore (sv_numberCode (es_value s))) ?b = Inr (Some (Fin 7))"
    by code_simp
  then obtain s where s: "?b = Inr s" and n: "entryBefore (sv_numberCode (es_value s)) = Some (Fin 7)"
    by (cases ?b) auto
  from field_state_invariant [OF s] s n show ?thesis
    by blast
qed

section \<open>Properties of the Error-Collection Detector\<close>

lemma findErrorsArray_find:
  "findErrorsArray B input (map JStr ps) =
     Inr (case List.find (\<lambda>p. Array_isArray (findNestedValueForPath B input p)) ps of
            None \<Rightarrow> ([], None, False)
          | Some p \<Rightarrow> (elementsOf (findNestedValueForPath B input p), Some p, True))"
proof (induction ps)
  case Nil
  show ?case by simp
next
  case (Cons p ps)
  then show ?case by (cases "findNestedValueForPath B input p") simp_all
qed

lemma buildSummariesFromObject_paths:
  assumes "input \<noteq> JUndef" and "input \<noteq> JNull" and "typeof input = ''object''"
    and "pathToErrors options = Paths (map JStr ps)"
  shows "buildSummariesFromObject B input options =
     (case List.find (\<lambda>p. Array_isArray (findNestedValueForPath B input p)) ps of
        None \<Rightarrow> [buildSummaryFromObject B input None False options]
      | Some p \<Rightarrow>
          if elementsOf (findNestedValueForPath B input p) = []
          then [buildSummaryFromObject B input (Some p) True options]
          else map (\<lambda>candidate. buildSummaryFromObject B candidate (Some p) True options)
                 (elementsOf (findNestedValueForPath B input p)))"
  using assms
  by (simp add: buildSummariesFromObject_def findErrorsArray_find split: option.splits)

text \<open>
  Claim C2, as stated: the first path whose value is a non-empty array is accepted as
  the collection. It fails: the first path whose value is an array ends the search, also
  when the array is empty. On \<open>{errors: [], errs: [{code: "E", message: "m"}]}\<close> with
  the default paths \<open>errors\<close>, \<open>errs\<close>, the only candidate is the payload itself,
  found under the path \<open>errors\<close>; the element under \<open>errs\<close> is not a candidate.
\<close>

theorem empty_array_ends_the_search:
  "map (map_sum id (\<lambda>s. (es_input s, es_path s, es_didDetectErrorsArray s)))
     (buildSummariesFromObject refEnv
        (JObj [(''errors'', JArr []),
               (''errs'', JArr [JObj [(''code'', JStr ''E''), (''message'', JStr ''m'')]])])
        (DEFAULT_BUILD_OPTIONS refEnv))
   = [Inr (JObj [(''errors'', JArr []),
                 (''errs'', JArr [JObj [(''code'', JStr ''E''), (''message'', JStr ''m'')]])],
           Some ''errors'', Some True)]"
  by code_simp

text \<open>
  Claim C2, amended: for every object payload and every configured list of string
  collection paths, the paths are tried in list order and the first path whose resolved
  value is an array, empty or not, ends the search; when that array is non-empty every
  element of it becomes a candidate, in order; when it is empty, or when no path yields
  an array, the payload itself is the sole candidate.
\<close>

theorem first_array_path_is_the_collection:
  assumes "input \<noteq> JUndef" and "input \<noteq> JNull" and "typeof input = ''object''"
    and "pathToErrors options = Paths (map JStr ps)"
  shows "buildSummariesFromObject B input options =
     (case List.find (\<lambda>p. Array_isArray (findNestedValueForPath B input p)) ps of
        None \<Rightarrow> [buildSummaryFromObject B input None False options]
      | Some p \<Rightarrow>
          if elementsOf (findNestedValueForPath B input p) = []
          then [buildSummaryFromObject B input (Some p) True options]
          else map (\<lambda>candidate. buildSummaryFromObject B candidate (Some p) True options)
                 (elementsOf (findNestedValueForPath B input p)))"
  using assms by (rule buildSummariesFromObject_paths)

theorem first_array_path_is_the_collection_witness:
  "buildSummariesFromObject refEnv
     (JObj [(''data'', JStr ''d''), (''errs'', JArr [JStr ''x'', JNull]), (''errors'', JArr [])])
     (noOptions\<lparr> pathToErrors := Paths [JStr ''data'', JStr ''errs'', JStr ''errors''] \<rparr>)
   = [Inl buildSummaryIsNotAnObject, Inl buildSummaryIsNullish]"
proof -
  let ?v = "JObj [(''data'', JStr ''d''), (''errs'', JArr [JStr ''x'', JNull]), (''errors'', JArr [])]"
  let ?o = "noOptions\<lparr> pathToErrors := Paths [JStr ''data'', JStr ''errs'', JStr ''errors''] \<rparr>"
  have "buildSummariesFromObject refEnv ?v ?o =
     (case List.find (\<lambda>p. Array_isArray (findNestedValueForPath refEnv ?v p))
             [''data'', ''errs'', ''errors''] of
        None \<Rightarrow> [buildSummaryFromObject refEnv ?v None False ?o]
      | Some p \<Rightarrow>
          if elementsOf (findNestedValueForPath refEnv ?v p) = []
          then [buildSummaryFromObject refEnv ?v (Some p) True ?o]
          else map (\<lambda>candidate. buildSummaryFromObject refEnv candidate (Some p) True ?o)
                 (elementsOf (findNestedValueForPath refEnv ?v p)))"
    by (rule first_array_path_is_the_collection) (simp_all add: noOptions_def)
  also have "\<dots> = [Inl buildSummaryIsNotAnObject, Inl buildSummaryIsNullish]"
    by code_simp
  finally show ?thesis .
qed

section \<open>Properties of the Result Aggregator\<close>

lemma isStringValue_isString: "isStringValue v = isString v"
  by (cases v) (simp_all add: isStringValue_def)

lemma filterSummary_validEntry:
  "filterSummary e = (validEntry e, if validEntry e then [] else [noteOf e])"
  by (cases e) (simp_all add: isStringValue_isString)

lemma processingErrorsOf_noteOf:
  "processingErrorsOf ss = map noteOf (filter (\<lambda>e. \<not> validEntry e) ss)"
  by (induction ss) (simp_all add: processingErrorsOf_def filterSummary_validEntry)

lemma isString_stringOf: "isString v \<Longrightarrow> JStr (stringOf v) = v"
  by (cases v) simp_all

lemma buildErrorObject_valid:
  assumes "validEntry e"
  shows "\<exists>r. buildErrorObject pes e = Some r \<and> carries r e
           \<and> eo_processingErrors r = Some pes \<and> eo_nextErrors r = None \<and> eo_raw r = None"
proof (cases e)
  case (Inl x)
  with assms show ?thesis by simp
next
  case (Inr s)
  with assms show ?thesis
    by (simp add: isStringValue_isString isString_stringOf)
qed

lemma map_filter_build_valid:
  "list_all validEntry es \<Longrightarrow>
   list_all2 (\<lambda>r e. carries r e \<and> eo_processingErrors r = Some pes
                    \<and> eo_nextErrors r = None \<and> eo_raw r = None)
     (List.map_filter (buildErrorObject pes) es) es"
proof (induction es)
  case Nil
  show ?case by (simp add: List.map_filter_simps)
next
  case (Cons e es)
  then obtain r where "buildErrorObject pes e = Some r" "carries r e"
      "eo_processingErrors r = Some pes" "eo_nextErrors r = None" "eo_raw r = None"
    using buildErrorObject_valid [of e pes] by auto
  with Cons show ?case by (simp add: List.map_filter_simps)
qed

lemma validErrorsOf_valid:
  "list_all2 (\<lambda>r e. carries r e \<and> eo_processingErrors r = Some (processingErrorsOf ss)
                    \<and> eo_nextErrors r = None \<and> eo_raw r = None)
     (validErrorsOf ss) (filter validEntry ss)"
proof -
  have "filter (\<lambda>summary. fst (filterSummary summary)) ss = filter validEntry ss"
    by (simp add: filterSummary_validEntry)
  moreover have "list_all validEntry (filter validEntry ss)"
    by (simp add: list_all_iff)
  ultimately show ?thesis
    unfolding validErrorsOf_def using map_filter_build_valid by simp
qed

text \<open>
  Claim C1, as stated: a summary is valid, and a record is built from it, if and only if
  its code and message after the transform are non-empty strings. It fails: the test is
  \<open>typeof code === 'string'\<close>, which the empty string passes. For the payload
  \<open>{code: "", message: "Something went wrong", domain: "auth"}\<close> of the package's
  documentation the batch is one summary with the empty code, and a record with the empty
  code is built from it.
\<close>

theorem empty_code_is_valid:
  "map (map_sum id (\<lambda>s. entryValue (sv_code (es_value s))))
     (buildSummariesFromObject refEnv
        (JObj [(''code'', JStr []), (''message'', JStr ''Something went wrong''),
               (''domain'', JStr ''auth'')])
        (DEFAULT_BUILD_OPTIONS refEnv))
     = [Inr (JStr [])]
   \<and> map (\<lambda>r. (eo_code r, eo_message r))
       (validErrorsOf
          (buildSummariesFromObject refEnv
             (JObj [(''code'', JStr []), (''message'', JStr ''Something went wrong''),
                    (''domain'', JStr ''auth'')])
             (DEFAULT_BUILD_OPTIONS refEnv)))
     = [([], ''Something went wrong'')]"
  by code_simp

text \<open>
  Claim C1, amended: for every batch of extraction summaries passed to the result
  aggregator, a summary is classified as valid, and a Final Record is built from it, if
  and only if its code and message after the transform are both present strings, empty
  or not: the records built are those of the valid entries, one each and in their order,
  each carrying its summary and the processing notes of the whole batch; every other
  entry, failure sentinels included, contributes a Processing Note instead, in order.
\<close>

theorem records_of_valid_notes_of_others:
  "list_all2 (\<lambda>r e. carries r e \<and> eo_processingErrors r = Some (processingErrorsOf ss))
     (validErrorsOf ss) (filter validEntry ss)
   \<and> processingErrorsOf ss = map noteOf (filter (\<lambda>e. \<not> validEntry e) ss)"
  using validErrorsOf_valid [of ss] processingErrorsOf_noteOf [of ss]
  by (auto elim!: list_all2_mono)

theorem records_of_valid_notes_of_others_witness:
  "map (\<lambda>r. (eo_code r, eo_message r))
     (validErrorsOf
        [Inl buildSummaryIsNullish,
         Inr \<lparr> es_didDetectErrorsArray = None, es_input = JObj [], es_path = None,
               es_value = \<lparr> sv_code = Some \<lparr> pvt_path = None, pvt_beforeTransform = None,
                                               pvt_value = JStr ''E'' \<rparr>,
                             sv_numberCode = None,
                             sv_message = Some \<lparr> pvt_path = None, pvt_beforeTransform = None,
                                                  pvt_value = JStr [] \<rparr>,
                             sv_details = None, sv_domain = None \<rparr> \<rparr>,
         Inr \<lparr> es_didDetectErrorsArray = None, es_input = JObj [], es_path = None,
               es_value = \<lparr> sv_code = Some \<lparr> pvt_path = None, pvt_beforeTransform = None,
                                               pvt_value = JStr ''E'' \<rparr>,
                             sv_numberCode = None, sv_message = None,
                             sv_details = None, sv_domain = None \<rparr> \<rparr>])
   = [(''E'', [])]
   \<and> map pe_errorCode
       (processingErrorsOf
        [Inl buildSummaryIsNullish,
         Inr \<lparr> es_didDetectErrorsArray = None, es_input = JObj [], es_path = None,
               es_value = \<lparr> sv_code = Some \<lparr> pvt_path = None, pvt_beforeTransform = None,
                                               pvt_value = JStr ''E'' \<rparr>,
                             sv_numberCode = None,
                             sv_message = Some \<lparr> pvt_path = None, pvt_beforeTransform = None,
                                                  pvt_value = JStr [] \<rparr>,
                             sv_details = None, sv_domain = None \<rparr> \<rparr>,
         Inr \<lparr> es_didDetectErrorsArray = None, es_input = JObj [], es_path = None,
               es_value = \<lparr> sv_code = Some \<lparr> pvt_path = None, pvt_beforeTransform = None,
                                               pvt_value = JStr ''E'' \<rparr>,
                             sv_numberCode = None, sv_message = None,
                             sv_details = None, sv_domain = None \<rparr> \<rparr>])
   = [buildSummaryIsNullish, unknownCodeOrMessage]"
proof -
  let ?s1 = "\<lparr> es_didDetectErrorsArray = None, es_input = JObj [], es_path = None,
               es_value = \<lparr> sv_code = Some \<lparr> pvt_path = None, pvt_beforeTransform = None,
                                               pvt_value = JStr ''E'' \<rparr>,
                             sv_numberCode = None,
                             sv_message = Some \<lparr> pvt_path = None, pvt_beforeTransform = None,
                                                  pvt_value = JStr [] \<rparr>,
                             sv_details = None, sv_domain = None \<rparr> \<rparr>"
  let ?s2 = "\<lparr> es_didDetectErrorsArray = None, es_input = JObj [], es_path = None,
               es_value = \<lparr> sv_code = Some \<lparr> pvt_path = None, pvt_beforeTransform = None,
                                               pvt_value = JStr ''E'' \<rparr>,
                             sv_numberCode = None, sv_message = None,
                             sv_details = None, sv_domain = None \<rparr> \<rparr>"
  let ?ss = "[Inl buildSummaryIsNullish, Inr ?s1, Inr ?s2]"
  have v: "filter validEntry ?ss = [Inr ?s1]"
    by (simp add: entryValue_def)
  have n: "filter (\<lambda>e. \<not> validEntry e) ?ss = [Inl buildSummaryIsNullish, Inr ?s2]"
    by (simp add: entryValue_def)
  from records_of_valid_notes_of_others [of ?ss]
  have a: "list_all2 (\<lambda>r e. carries r e \<and> eo_processingErrors r = Some (processingErrorsOf ?ss))
             (validErrorsOf ?ss) [Inr ?s1]"
    and b: "processingErrorsOf ?ss = map noteOf [Inl buildSummaryIsNullish, Inr ?s2]"
    unfolding v n by blast+
  from a obtain r where r: "validErrorsOf ?ss = [r]" "carries r (Inr ?s1)"
    by (auto simp: list_all2_Cons2)
  from r(2) have "eo_code r = ''E''" "eo_message r = []"
    by (simp_all add: entryValue_def)
  with r(1) b show ?thesis by simp
qed

section \<open>Properties of the entry point\<close>

lemma carries_setters: "carries (setRaw (setNextErrors r nx) raw) e = carries r e"
  by (cases r; cases e) simp_all

lemma eo_raw_setRaw: "eo_raw (setRaw r raw) = Some raw"
  by (cases r) simp

lemma eo_nextErrors_setters: "eo_nextErrors (setRaw (setNextErrors r nx) raw) = nx"
  by (cases r) simp

lemma validErrorsOf_all_valid:
  assumes "list_all validEntry ss"
  shows "list_all2 carries (validErrorsOf ss) ss"
proof -
  from assms have "filter validEntry ss = ss"
    by (simp add: list_all_iff)
  with validErrorsOf_valid [of ss] show ?thesis
    by (auto elim!: list_all2_mono)
qed

text \<open>
  Claim C3, as stated: for every payload whose configured collection path resolves to an
  array of N valid candidates, the call returns a primary record. It fails twice. The
  input validation runs first: with the key rule \<open>{status: {exists: true}}\<close> the payload
  \<open>{errors: [{code: "C1", message: "m1"}, {code: "C2", message: "m2"}]}\<close> is rejected
  and the call returns no record, though \<open>errors\<close> holds two valid candidates. And the
  first array-valued path is the collection: with the default paths \<open>errors\<close>,
  \<open>errs\<close>, the payload \<open>{errors: [{}], errs: [{code: "C1", message: "m1"}]}\<close> has
  a valid candidate under \<open>errs\<close>, and the call returns no record, because the
  collection is the array under \<open>errors\<close>.
\<close>

theorem validator_and_earlier_path_come_first:
  "findNestedValueForPath refEnv
     (JObj [(''errors'', JArr [JObj [(''code'', JStr ''C1''), (''message'', JStr ''m1'')],
                              JObj [(''code'', JStr ''C2''), (''message'', JStr ''m2'')]])])
     ''errors''
     = JArr [JObj [(''code'', JStr ''C1''), (''message'', JStr ''m1'')],
             JObj [(''code'', JStr ''C2''), (''message'', JStr ''m2'')]]
   \<and> list_all
       (\<lambda>x. validEntry (buildSummaryFromObject refEnv x (Some ''errors'') True
              (mergeOptions (DEFAULT_BUILD_OPTIONS refEnv)
                 (noOptions\<lparr> checkInputObjectForKeys := Rules [(''status'', \<lparr> kr_exists = True \<rparr>)] \<rparr>))))
       [JObj [(''code'', JStr ''C1''), (''message'', JStr ''m1'')],
        JObj [(''code'', JStr ''C2''), (''message'', JStr ''m2'')]]
   \<and> fromPayload refEnv
       (JObj [(''errors'', JArr [JObj [(''code'', JStr ''C1''), (''message'', JStr ''m1'')],
                                JObj [(''code'', JStr ''C2''), (''message'', JStr ''m2'')]])])
       (noOptions\<lparr> checkInputObjectForKeys := Rules [(''status'', \<lparr> kr_exists = True \<rparr>)] \<rparr>)
     = \<lparr> error = None,
         force = setProcessingErrors
           (setRaw refFallback
              (JObj [(''errors'', JArr [JObj [(''code'', JStr ''C1''), (''message'', JStr ''m1'')],
                                       JObj [(''code'', JStr ''C2''), (''message'', JStr ''m2'')]])]))
           [\<lparr> pe_errorCode = checkInputObjectForKeysFailed, pe_summary = None \<rparr>] \<rparr>
   \<and> findNestedValueForPath refEnv
       (JObj [(''errors'', JArr [JObj []]),
              (''errs'', JArr [JObj [(''code'', JStr ''C1''), (''message'', JStr ''m1'')]])])
       ''errs''
     = JArr [JObj [(''code'', JStr ''C1''), (''message'', JStr ''m1'')]]
   \<and> validEntry (buildSummaryFromObject refEnv (JObj [(''code'', JStr ''C1''), (''message'', JStr ''m1'')])
                   (Some ''errs'') True (mergeOptions (DEFAULT_BUILD_OPTIONS refEnv) noOptions))
   \<and> error (fromPayload refEnv
       (JObj [(''errors'', JArr [JObj []]),
              (''errs'', JArr [JObj [(''code'', JStr ''C1''), (''message'', JStr ''m1'')]])])
       noOptions) = None"
  by code_simp


text \<open>
  Claim C3, amended: for every object payload that passes the input validation and whose
  first array-valued configured collection path resolves to an array of N candidates (N
  at least 1), each yielding a valid summary (string code and message), the call returns
  exactly one primary record, built from the first array element, with the records of the
  remaining N - 1 elements as its secondary-errors list in array order, and the raw
  payload attached to it.
\<close>

theorem primary_and_secondary_records:
  assumes "input \<noteq> JUndef" and "input \<noteq> JNull" and "typeof input = ''object''"
    and "options = mergeOptions (DEFAULT_BUILD_OPTIONS B) withOptions"
    and "checkInputForInitialObject B input options = None"
    and "pathToErrors options = Paths (map JStr ps)"
    and "List.find (\<lambda>p. Array_isArray (findNestedValueForPath B input p)) ps = Some p"
    and "findNestedValueForPath B input p = JArr (c # cs)"
    and "list_all (\<lambda>x. validEntry (buildSummaryFromObject B x (Some p) True options)) (c # cs)"
  shows "\<exists>primary. fromPayload B input withOptions = \<lparr> error = Some primary, force = primary \<rparr>
           \<and> carries primary (buildSummaryFromObject B c (Some p) True options)
           \<and> list_all2 carries (nextErrorsList primary)
                (map (\<lambda>x. buildSummaryFromObject B x (Some p) True options) cs)
           \<and> eo_raw primary = Some input"
proof -
  let ?build = "\<lambda>x. buildSummaryFromObject B x (Some p) True options"
  have ss: "summariesOf B input options = map ?build (c # cs)"
    using assms(1,2,3,6,7,8) buildSummariesFromObject_paths [of input options ps B]
    by (simp add: summariesOf_def)
  have "list_all validEntry (map ?build (c # cs))"
    using assms(9) by (simp add: list_all_iff)
  from validErrorsOf_all_valid [OF this]
  obtain first rest where v: "validErrorsOf (map ?build (c # cs)) = first # rest"
      and f: "carries first (?build c)" and r: "list_all2 carries rest (map ?build cs)"
    by (auto simp: list_all2_Cons2)
  let ?primary = "setRaw (setNextErrors first (if 0 < length rest then Some rest else None)) input"
  have res: "fromPayload B input withOptions = \<lparr> error = Some ?primary, force = ?primary \<rparr>"
    using assms(4,5) ss v
    by (simp add: fromPayload_def processErrorObjectResult_def Let_def)
  have n: "nextErrorsList ?primary = rest"
    by (simp add: nextErrorsList_def eo_nextErrors_setters)
  show ?thesis
    using res f r n by (intro exI [of _ ?primary]) (simp add: carries_setters eo_raw_setRaw)
qed

theorem primary_and_secondary_records_witness:
  "\<exists>primary.
     fromPayload refEnv
       (JObj [(''errors'',
               JArr [JObj [(''message'', JStr ''m1''), (''extensions'', JObj [(''code'', JStr ''C1'')])],
                     JObj [(''message'', JStr ''m2''), (''extensions'', JObj [(''code'', JStr ''C2'')])]])])
       (noOptions\<lparr> pathToErrors := Paths [JStr ''errors''],
                   pathToCode := Paths [JStr ''extensions.code''],
                   pathToMessage := Paths [JStr ''message''] \<rparr>)
       = \<lparr> error = Some primary, force = primary \<rparr>
     \<and> (eo_code primary, eo_message primary) = (''C1'', ''m1'')
     \<and> map (\<lambda>r. (eo_code r, eo_message r)) (nextErrorsList primary) = [(''C2'', ''m2'')]
     \<and> eo_raw primary =
         Some (JObj [(''errors'',
               JArr [JObj [(''message'', JStr ''m1''), (''extensions'', JObj [(''code'', JStr ''C1'')])],
                     JObj [(''message'', JStr ''m2''), (''extensions'', JObj [(''code'', JStr ''C2'')])]])])"
proof -
  let ?c1 = "JObj [(''message'', JStr ''m1''), (''extensions'', JObj [(''code'', JStr ''C1'')])]"
  let ?c2 = "JObj [(''message'', JStr ''m2''), (''extensions'', JObj [(''code'', JStr ''C2'')])]"
  let ?v = "JObj [(''errors'', JArr [?c1, ?c2])]"
  let ?w = "noOptions\<lparr> pathToErrors := Paths [JStr ''errors''],
                        pathToCode := Paths [JStr ''extensions.code''],
                        pathToMessage := Paths [JStr ''message''] \<rparr>"
  let ?o = "mergeOptions (DEFAULT_BUILD_OPTIONS refEnv) ?w"
  let ?build = "\<lambda>x. buildSummaryFromObject refEnv x (Some ''errors'') True ?o"
  have h1: "checkInputForInitialObject refEnv ?v ?o = None"
    by code_simp
  have h2: "pathToErrors ?o = Paths (map JStr [''errors''])"
    by (simp add: mergeOptions_def noOptions_def)
  have h3: "List.find (\<lambda>p. Array_isArray (findNestedValueForPath refEnv ?v p)) [''errors'']
              = Some ''errors''"
    by code_simp
  have h4: "findNestedValueForPath refEnv ?v ''errors'' = JArr [?c1, ?c2]"
    by code_simp
  have h5: "list_all (\<lambda>x. validEntry (?build x)) [?c1, ?c2]"
    by code_simp
  have b1: "map_sum id (\<lambda>s. (entryValue (sv_code (es_value s)), entryValue (sv_message (es_value s))))
              (?build ?c1) = Inr (JStr ''C1'', JStr ''m1'')"
    by code_simp
  have b2: "map_sum id (\<lambda>s. (entryValue (sv_code (es_value s)), entryValue (sv_message (es_value s))))
              (?build ?c2) = Inr (JStr ''C2'', JStr ''m2'')"
    by code_simp
  have "\<exists>primary. fromPayload refEnv ?v ?w = \<lparr> error = Some primary, force = primary \<rparr>
           \<and> carries primary (?build ?c1)
           \<and> list_all2 carries (nextErrorsList primary) (map ?build [?c2])
           \<and> eo_raw primary = Some ?v"
    by (rule primary_and_secondary_records [where ps = "[''errors'']" and options = ?o
          and p = "''errors''" and c = ?c1 and cs = "[?c2]", OF _ _ _ refl h1 h2 h3 h4 h5])
       simp_all
  then obtain primary where p: "fromPayload refEnv ?v ?w = \<lparr> error = Some primary, force = primary \<rparr>"
      and c1: "carries primary (?build ?c1)"
      and c2: "list_all2 carries (nextErrorsList primary) [?build ?c2]"
      and raw: "eo_raw primary = Some ?v"
    by auto
  from c1 b1 have e1: "(eo_code primary, eo_message primary) = (''C1'', ''m1'')"
    by (cases "?build ?c1") auto
  from c2 obtain r where n: "nextErrorsList primary = [r]" and cr: "carries r (?build ?c2)"
    by (auto simp: list_all2_Cons2)
  from cr b2 have "(eo_code r, eo_message r) = (''C2'', ''m2'')"
    by (cases "?build ?c2") auto
  with p e1 n raw show ?thesis
    by (intro exI [of _ primary]) simp
qed

lemma buildSummariesFromObject_not_Nil: "buildSummariesFromObject B v options \<noteq> []"
  by (auto simp: buildSummariesFromObject_def Let_def split: sum.splits pathsOption.splits prod.splits)

lemma summariesOf_not_Nil: "summariesOf B v options \<noteq> []"
  by (simp add: summariesOf_def buildSummariesFromObject_not_Nil)

lemma checkInputForInitialObject_run_returns:
  "checkInputForInitialObject_run B input options
     = Returns (checkInputForInitialObject B input options)"
  by (cases "checkInputForInitialObject_try B input options")
     (simp_all add: checkInputForInitialObject_run_def checkInputForInitialObject_def)

lemma buildSummaryFromObject_run_returns:
  "buildSummaryFromObject_run B c p d options = Returns (buildSummaryFromObject B c p d options)"
proof -
  have t: "tryCatch (andThen x k) h = (case x of Throws \<Rightarrow> h | Returns y \<Rightarrow> tryCatch (k y) h)"
    for x :: "jv outcome" and k :: "jv \<Rightarrow> (errorObjectErrorResult + errorSummary) outcome" and h
    by (cases x) simp_all
  show ?thesis
    unfolding buildSummaryFromObject_run_def buildSummaryFromObject_try_def
      buildSummaryFromObject_def Let_def
    by (simp add: t split: sum.splits outcome.splits option.splits transformOption.splits)
qed

lemma callAll_returns:
  "(\<And>x. f x = Returns (g x)) \<Longrightarrow> callAll f xs = Returns (map g xs)"
  by (induction xs) simp_all

lemma buildSummariesFromObject_run_returns:
  "buildSummariesFromObject_run B input options
     = Returns (buildSummariesFromObject B input options)"
  unfolding buildSummariesFromObject_run_def buildSummariesFromObject_try_def
    buildSummariesFromObject_def Let_def
  by (simp add: callAll_returns [where g = "\<lambda>x. buildSummaryFromObject B x _ _ options"]
      buildSummaryFromObject_run_returns split: sum.splits pathsOption.splits prod.splits)

lemma from_run_returns: "from_run B v w = Returns (fromPayload B v w)"
  unfolding from_run_def fromPayload_def Let_def summariesOf_def
  by (simp add: checkInputForInitialObject_run_returns buildSummariesFromObject_run_returns
      buildSummaryFromObject_run_returns split: option.splits)


lemma eo_processingErrors_setters:
  "eo_processingErrors (setRaw (setNextErrors r nx) raw) = eo_processingErrors r"
  by (cases r) simp

lemma noteOf_Inl: "noteOf (Inl c) = \<lparr> pe_errorCode = c, pe_summary = None \<rparr>"
  by simp

text \<open>
  Claim C9: for every input payload and every options value, the entry point \<open>from\<close>
  returns a result and no exception escapes the call: the throw of a \<open>null\<close> rule set
  and the throw of the transform are caught in their stage. The result always carries a
  forced record. When the validation rejects the payload, the record field is absent and
  the forced record is the fallback, with the raw payload, carrying the note of that
  failure. When no entry of the batch of summaries is valid, the record field is absent
  and the forced record is the fallback, with the raw payload, carrying the accumulated
  Processing Notes: the note of every entry of the batch, in order, and the batch is not
  empty. When an entry is valid, the record field is the forced record: it carries the
  first valid entry, the raw payload, the records of the other valid entries in order,
  and the notes of the entries that are not valid.
\<close>

theorem from_returns_record_or_fallback_with_notes:
  "\<exists>res. from_run B v w = Returns res
     \<and> (case checkInputForInitialObject B v (mergeOptions (DEFAULT_BUILD_OPTIONS B) w) of
          Some c \<Rightarrow>
            res = \<lparr> error = None,
                    force = setProcessingErrors (setRaw (ErrorObject_fallback B) v) [noteOf (Inl c)] \<rparr>
        | None \<Rightarrow>
            (case filter validEntry (summariesOf B v (mergeOptions (DEFAULT_BUILD_OPTIONS B) w)) of
               [] \<Rightarrow>
                 summariesOf B v (mergeOptions (DEFAULT_BUILD_OPTIONS B) w) \<noteq> []
                 \<and> res = \<lparr> error = None,
                           force = setProcessingErrors (setRaw (ErrorObject_fallback B) v)
                                     (map noteOf (summariesOf B v (mergeOptions (DEFAULT_BUILD_OPTIONS B) w))) \<rparr>
             | e # es \<Rightarrow>
                 error res = Some (force res)
                 \<and> carries (force res) e
                 \<and> list_all2 carries (nextErrorsList (force res)) es
                 \<and> eo_raw (force res) = Some v
                 \<and> eo_processingErrors (force res)
                     = Some (map noteOf (filter (\<lambda>x. \<not> validEntry x)
                               (summariesOf B v (mergeOptions (DEFAULT_BUILD_OPTIONS B) w))))))"
proof -
  let ?o = "mergeOptions (DEFAULT_BUILD_OPTIONS B) w"
  let ?ss = "summariesOf B v ?o"
  let ?fb = "setRaw (ErrorObject_fallback B) v"
  show ?thesis
  proof (cases "checkInputForInitialObject B v ?o")
    case (Some c)
    then show ?thesis
      by (simp add: from_run_returns fromPayload_def)
  next
    case None
    then have res: "fromPayload B v w = processErrorObjectResult ?ss v ?fb"
      by (simp add: fromPayload_def)
    show ?thesis
    proof (cases "filter validEntry ?ss")
      case Nil
      with validErrorsOf_valid [of ?ss] have ve: "validErrorsOf ?ss = []"
        by simp
      from Nil have "filter (\<lambda>e. \<not> validEntry e) ?ss = ?ss"
        by (simp add: filter_empty_conv)
      then have pe: "processingErrorsOf ?ss = map noteOf ?ss"
        by (simp add: processingErrorsOf_noteOf)
      have ne: "?ss \<noteq> []"
        by (rule summariesOf_not_Nil)
      from None Nil ne show ?thesis
        by (simp add: from_run_returns res processErrorObjectResult_def ve pe)
    next
      case (Cons e es)
      with validErrorsOf_valid [of ?ss]
      obtain first rest where ve: "validErrorsOf ?ss = first # rest"
          and f: "carries first e" "eo_processingErrors first = Some (processingErrorsOf ?ss)"
          and r0: "list_all2 (\<lambda>r e. carries r e
                     \<and> eo_processingErrors r = Some (processingErrorsOf ?ss)
                     \<and> eo_nextErrors r = None \<and> eo_raw r = None) rest es"
        by (auto simp: list_all2_Cons2)
      from r0 have r: "list_all2 carries rest es"
        by (rule list_all2_mono) simp
      let ?primary = "setRaw (setNextErrors first (if 0 < length rest then Some rest else None)) v"
      have p: "processErrorObjectResult ?ss v ?fb = \<lparr> error = Some ?primary, force = ?primary \<rparr>"
        by (simp add: processErrorObjectResult_def ve Let_def)
      have n: "nextErrorsList ?primary = rest"
        by (simp add: nextErrorsList_def eo_nextErrors_setters)
      from None Cons f r n show ?thesis
        by (simp add: from_run_returns res p carries_setters eo_raw_setRaw
            eo_processingErrors_setters processingErrorsOf_noteOf)
    qed
  qed
qed

theorem from_returns_record_or_fallback_with_notes_witness:
  "from_run refEnv (JStr ''boom'') noOptions
     = Returns \<lparr> error = None,
         force = setProcessingErrors (setRaw refFallback (JStr ''boom''))
                   [\<lparr> pe_errorCode = checkIsNotAnObject, pe_summary = None \<rparr>] \<rparr>
   \<and> from_run refEnv (JObj [(''code'', JStr ''E''), (''message'', JStr ''m'')])
       (noOptions\<lparr> checkInputObjectForKeys := RulesNull,
                   transform := Transform (\<lambda>beforeTransform inputObject. Throws) \<rparr>)
     = Returns \<lparr> error = None,
         force = setProcessingErrors
                   (setRaw refFallback (JObj [(''code'', JStr ''E''), (''message'', JStr ''m'')]))
                   [\<lparr> pe_errorCode = generalBuildSummaryFromObjectError, pe_summary = None \<rparr>] \<rparr>"
proof -
  let ?v = "JObj [(''code'', JStr ''E''), (''message'', JStr ''m'')]"
  let ?w = "noOptions\<lparr> checkInputObjectForKeys := RulesNull,
                        transform := Transform (\<lambda>beforeTransform inputObject. Throws) \<rparr>"
  have f: "ErrorObject_fallback refEnv = refFallback"
    by (simp add: refEnv_def)
  have a1: "checkInputForInitialObject refEnv (JStr ''boom'')
              (mergeOptions (DEFAULT_BUILD_OPTIONS refEnv) noOptions) = Some checkIsNotAnObject"
    by code_simp
  have b1: "checkInputForInitialObject refEnv ?v (mergeOptions (DEFAULT_BUILD_OPTIONS refEnv) ?w) = None"
    by code_simp
  have b2: "summariesOf refEnv ?v (mergeOptions (DEFAULT_BUILD_OPTIONS refEnv) ?w)
              = [Inl generalBuildSummaryFromObjectError]"
    by code_simp
  from from_returns_record_or_fallback_with_notes [of refEnv "JStr ''boom''" noOptions]
  have 1: "from_run refEnv (JStr ''boom'') noOptions
     = Returns \<lparr> error = None,
         force = setProcessingErrors (setRaw refFallback (JStr ''boom''))
                   [\<lparr> pe_errorCode = checkIsNotAnObject, pe_summary = None \<rparr>] \<rparr>"
    unfolding a1 f by auto
  from from_returns_record_or_fallback_with_notes [of refEnv ?v ?w]
  have 2: "from_run refEnv ?v ?w
     = Returns \<lparr> error = None,
         force = setProcessingErrors (setRaw refFallback ?v)
                   [\<lparr> pe_errorCode = generalBuildSummaryFromObjectError, pe_summary = None \<rparr>] \<rparr>"
    unfolding b1 b2 f by auto
  from 1 2 show ?thesis by simp
qed

end
